theory Spec2Isabelle
  imports Main
begin

section \<open>Errors (error.go and the error part of the single-file package)\<close>

text \<open>
  A Go \<^verbatim>\<open>error\<close> is an interface value. Three shapes matter to the package:
  \<^item> \<open>Foreign m\<close>: an error of another package that has no \<^verbatim>\<open>Unwrap\<close> method
    (\<^verbatim>\<open>errors.New\<close>, \<^verbatim>\<open>base64.CorruptInputError\<close>, \<^verbatim>\<open>*json.SyntaxError\<close>); \<open>m\<close> is
    the text its \<^verbatim>\<open>Error()\<close> returns;
  \<^item> \<open>ForeignWrap m e\<close>: an error of another package whose \<^verbatim>\<open>Unwrap\<close> returns \<open>e\<close>
    (\<^verbatim>\<open>fmt.Errorf\<close> with \<^verbatim>\<open>%w\<close>);
  \<^item> \<open>Error message err\<close>: the package's own \<^verbatim>\<open>*Error{message, err}\<close>.
  A nil error is \<open>None\<close> of \<open>error option\<close>. Foreign errors with an \<^verbatim>\<open>As\<close> or \<^verbatim>\<open>Is\<close>
  method of their own, or with \<^verbatim>\<open>Unwrap() []error\<close>, are not modelled.
\<close>

datatype error =
    Foreign string
  | ForeignWrap string error
  | Error string error

text \<open>\<^verbatim>\<open>func (e *Error) Error() string\<close>, and the text of a foreign error.\<close>

fun error_Error :: "error \<Rightarrow> string" where
  "error_Error (Error message err) = message @ '': '' @ error_Error err"
| "error_Error (ForeignWrap m e) = m"
| "error_Error (Foreign m) = m"

text \<open>\<^verbatim>\<open>func (e *Error) Unwrap() error\<close>, and \<^verbatim>\<open>errors.Unwrap\<close> on a foreign error.\<close>

fun Unwrap :: "error \<Rightarrow> error option" where
  "Unwrap (Error message err) = Some err"
| "Unwrap (ForeignWrap m e) = Some e"
| "Unwrap (Foreign m) = None"

text \<open>
  The chain \<^verbatim>\<open>errors.Is\<close> and \<^verbatim>\<open>errors.As\<close> walk: the error, then what \<^verbatim>\<open>Unwrap\<close>
  returns, repeatedly.
\<close>

fun chain :: "error \<Rightarrow> error list" where
  "chain (Error message err) = Error message err # chain err"
| "chain (ForeignWrap m e) = ForeignWrap m e # chain e"
| "chain (Foreign m) = [Foreign m]"

definition errors_Is :: "error \<Rightarrow> error \<Rightarrow> bool" where
  "errors_Is err target = (target \<in> set (chain err))"

text \<open>
  \<^verbatim>\<open>errors.As(err, &ctxwireErr)\<close> with \<^verbatim>\<open>var ctxwireErr *Error\<close>: whether some error of
  the chain is a \<^verbatim>\<open>*Error\<close>.
\<close>

fun errors_As :: "error \<Rightarrow> bool" where
  "errors_As (Error message err) = True"
| "errors_As (ForeignWrap m e) = errors_As e"
| "errors_As (Foreign m) = False"

text \<open>The labels of the \<^verbatim>\<open>*Error\<close> values of a chain, outermost first.\<close>

fun labels :: "error \<Rightarrow> string list" where
  "labels (Error message err) = message # labels err"
| "labels (ForeignWrap m e) = labels e"
| "labels (Foreign m) = []"

text \<open>
  \<^verbatim>\<open>newError\<close> of the single-file package: an error whose chain already holds a
  \<^verbatim>\<open>*Error\<close> is returned as it is.
\<close>

definition newError :: "string \<Rightarrow> error \<Rightarrow> error" where
  "newError message err = (if errors_As err then err else Error message err)"

text \<open>\<^verbatim>\<open>newError\<close> of error.go: always a new \<^verbatim>\<open>*Error\<close>.\<close>

definition error_go_newError :: "string \<Rightarrow> error \<Rightarrow> error" where
  "error_go_newError message err = Error message err"

section \<open>The host: contexts, header carriers, library functions\<close>

text \<open>
  \<^verbatim>\<open>context.Context\<close> as the standard library builds it: the background context and
  a chain of \<^verbatim>\<open>context.WithValue\<close> nodes. A value is a Go \<^verbatim>\<open>any\<close>: \<open>None\<close> is the
  untyped nil, \<open>Some v\<close> anything else. A nil context is \<open>None\<close> of
  \<open>Context option\<close>.
\<close>

datatype ('k, 'v) Context =
    Background
  | WithValue "('k, 'v) Context" 'k "'v option"

fun Value :: "('k, 'v) Context \<Rightarrow> 'k \<Rightarrow> 'v option" where
  "Value Background key = None"
| "Value (WithValue parent k val) key = (if key = k then val else Value parent key)"

text \<open>Whether some node of the chain binds the key (to nil or not).\<close>

fun bound :: "('k, 'v) Context \<Rightarrow> 'k \<Rightarrow> bool" where
  "bound Background key = False"
| "bound (WithValue parent k val) key = (key = k \<or> bound parent key)"

type_synonym bytes = string

text \<open>
  The functions of the Go standard library the package calls. They are not part of the
  repository, so every definition takes them as a parameter:
  \<^verbatim>\<open>textproto.CanonicalMIMEHeaderKey\<close> (used by \<^verbatim>\<open>http.Header\<close>),
  \<^verbatim>\<open>base64.StdEncoding.EncodeToString\<close> and \<^verbatim>\<open>DecodeString\<close>,
  \<^verbatim>\<open>json.Marshal\<close> on a non-nil value, and \<^verbatim>\<open>json.Unmarshal\<close> into a \<^verbatim>\<open>var v any\<close>
  (the value it leaves in \<^verbatim>\<open>v\<close>, and its error).
\<close>

record 'v stdlib =
  CanonicalMIMEHeaderKey :: "string \<Rightarrow> string"
  EncodeToString :: "bytes \<Rightarrow> string"
  DecodeString :: "string \<Rightarrow> bytes \<times> error option"
  Marshal :: "'v \<Rightarrow> bytes \<times> error option"
  Unmarshal :: "bytes \<Rightarrow> 'v option \<times> error option"

text \<open>
  \<^verbatim>\<open>http.Header\<close> is a \<^verbatim>\<open>map[string][]string\<close>. \<^verbatim>\<open>Set\<close> stores the one-element list
  under the canonical key; \<^verbatim>\<open>Get\<close> returns the first value under the canonical key,
  or the empty string. The carrier is an allocated map (\<^verbatim>\<open>Set\<close> on a nil map panics; a
  nil map is not a value of the type below).
\<close>

type_synonym Header = "string \<Rightarrow> string list option"

definition Header_Set :: "('v, 'z) stdlib_scheme \<Rightarrow> Header \<Rightarrow> string \<Rightarrow> string \<Rightarrow> Header" where
  "Header_Set lib h key val = h(CanonicalMIMEHeaderKey lib key \<mapsto> [val])"

definition Header_Get :: "('v, 'z) stdlib_scheme \<Rightarrow> Header \<Rightarrow> string \<Rightarrow> string" where
  "Header_Get lib h key =
     (case h (CanonicalMIMEHeaderKey lib key) of
        None \<Rightarrow> []
      | Some [] \<Rightarrow> []
      | Some (v # vs) \<Rightarrow> v)"

section \<open>Encoders and decoders\<close>

text \<open>
  A call that panics does not return: its result is \<open>None\<close>. A call that returns gives
  \<open>Some\<close> of the Go result tuple, whose components may each be nil.
\<close>

type_synonym ('k, 'v) Encoder =
  "('k, 'v) Context option \<Rightarrow> 'k \<Rightarrow> (bytes \<times> error option) option"

type_synonym ('k, 'v) Decoder =
  "('k, 'v) Context option \<Rightarrow> 'k \<Rightarrow> bytes \<Rightarrow> (('k, 'v) Context option \<times> error option) option"

text \<open>
  \<^verbatim>\<open>encodeJSON\<close> and \<^verbatim>\<open>decodeJSON\<close> of the single-file package. \<^verbatim>\<open>ctx.Value\<close> on a
  nil context and \<^verbatim>\<open>context.WithValue\<close> with a nil parent panic.
\<close>

definition encodeJSON :: "('v, 'z) stdlib_scheme \<Rightarrow> ('k, 'v) Encoder" where
  "encodeJSON lib ctx key =
     (case ctx of
        None \<Rightarrow> None
      | Some c \<Rightarrow>
          (case Value c key of
             None \<Rightarrow> Some ([], None)
           | Some v \<Rightarrow> Some (Marshal lib v)))"

definition decodeJSON :: "('v, 'z) stdlib_scheme \<Rightarrow> ('k, 'v) Decoder" where
  "decodeJSON lib ctx key data =
     (case Unmarshal lib data of
        (v, Some err) \<Rightarrow> Some (None, Some err)
      | (v, None) \<Rightarrow>
          (case ctx of
             None \<Rightarrow> None
           | Some c \<Rightarrow> Some (Some (WithValue c key v), None)))"

text \<open>\<^verbatim>\<open>jsonEncoder\<close> and \<^verbatim>\<open>jsonDecoder\<close> of json\_propagator.go.\<close>

definition jsonEncoder :: "('v, 'z) stdlib_scheme \<Rightarrow> ('k, 'v) Encoder" where
  "jsonEncoder lib ctx key =
     (case ctx of
        None \<Rightarrow> None
      | Some c \<Rightarrow>
          (case Value c key of
             None \<Rightarrow> Some ([], None)
           | Some v \<Rightarrow> Some (Marshal lib v)))"

definition jsonDecoder :: "('v, 'z) stdlib_scheme \<Rightarrow> ('k, 'v) Decoder" where
  "jsonDecoder lib ctx key data =
     (case Unmarshal lib data of
        (v, Some err) \<Rightarrow> Some (None, Some err)
      | (v, None) \<Rightarrow>
          (case ctx of
             None \<Rightarrow> None
           | Some c \<Rightarrow> Some (Some (WithValue c key v), None)))"

section \<open>Propagators\<close>

text \<open>
  The \<^verbatim>\<open>Propagator\<close> interface. The header carrier is a Go map, shared with the
  caller, so each method returns the carrier it leaves behind.
\<close>

record ('k, 'v) Propagator =
  method_Inject :: "('k, 'v) Context option \<Rightarrow> Header \<Rightarrow> (error option \<times> Header) option"
  method_Extract :: "('k, 'v) Context option \<Rightarrow> Header \<Rightarrow>
     ((('k, 'v) Context option \<times> error option) \<times> Header) option"

text \<open>
  The struct \<^verbatim>\<open>ValuePropagator\<close> of the single-file package; the struct \<^verbatim>\<open>propagator\<close>
  of propagator.go has the same four fields.
\<close>

record ('k, 'v) ValuePropagator =
  name :: string
  contextKey :: 'k
  encoder :: "('k, 'v) Encoder"
  decoder :: "('k, 'v) Decoder"

type_synonym ('k, 'v) propagator = "('k, 'v) ValuePropagator"

definition headerKey :: "string \<Rightarrow> string" where
  "headerKey nm = ''x-ctxwire-'' @ nm"

definition NewValuePropagator ::
  "string \<Rightarrow> 'k \<Rightarrow> ('k, 'v) Encoder \<Rightarrow> ('k, 'v) Decoder \<Rightarrow> ('k, 'v) ValuePropagator" where
  "NewValuePropagator nm key enc dec =
     \<lparr>name = nm, contextKey = key, encoder = enc, decoder = dec\<rparr>"

definition NewJSONPropagator :: "('v, 'z) stdlib_scheme \<Rightarrow> string \<Rightarrow> 'k \<Rightarrow> ('k, 'v) ValuePropagator" where
  "NewJSONPropagator lib nm key = NewValuePropagator nm key (encodeJSON lib) (decodeJSON lib)"

text \<open>\<^verbatim>\<open>(*ValuePropagator).Inject\<close> and \<^verbatim>\<open>(*ValuePropagator).Extract\<close>.\<close>

definition ValuePropagator_Inject ::
  "('v, 'z) stdlib_scheme \<Rightarrow> ('k, 'v) ValuePropagator \<Rightarrow>
   ('k, 'v) Context option \<Rightarrow> Header \<Rightarrow> (error option \<times> Header) option" where
  "ValuePropagator_Inject lib p ctx h =
     (case encoder p ctx (contextKey p) of
        None \<Rightarrow> None
      | Some (data, Some err) \<Rightarrow> Some (Some (newError ''encode context value'' err), h)
      | Some (data, None) \<Rightarrow>
          if length data = 0 then Some (None, h)
          else Some (None, Header_Set lib h (headerKey (name p)) (EncodeToString lib data)))"

definition ValuePropagator_Extract ::
  "('v, 'z) stdlib_scheme \<Rightarrow> ('k, 'v) ValuePropagator \<Rightarrow>
   ('k, 'v) Context option \<Rightarrow> Header \<Rightarrow>
   ((('k, 'v) Context option \<times> error option) \<times> Header) option" where
  "ValuePropagator_Extract lib p ctx h =
     (let vStr = Header_Get lib h (headerKey (name p)) in
      if vStr = [] then Some ((ctx, None), h)
      else
        (case DecodeString lib vStr of
           (v, Some err) \<Rightarrow> Some ((None, Some (newError ''base64 decode context value'' err)), h)
         | (v, None) \<Rightarrow>
             (case decoder p ctx (contextKey p) v of
                None \<Rightarrow> None
              | Some (newCtx, Some err) \<Rightarrow>
                  Some ((None, Some (newError ''decode context value'' err)), h)
              | Some (newCtx, None) \<Rightarrow> Some ((newCtx, None), h))))"

definition ValuePropagator_Propagator ::
  "('v, 'z) stdlib_scheme \<Rightarrow> ('k, 'v) ValuePropagator \<Rightarrow> ('k, 'v) Propagator" where
  "ValuePropagator_Propagator lib p =
     \<lparr>method_Inject = ValuePropagator_Inject lib p,
      method_Extract = ValuePropagator_Extract lib p\<rparr>"

text \<open>
  propagator.go: \<^verbatim>\<open>NewPropagator\<close>, \<^verbatim>\<open>(*propagator).Inject\<close> and
  \<^verbatim>\<open>(*propagator).Extract\<close>. Errors are returned as they come, and \<^verbatim>\<open>Extract\<close>
  returns what the decoder returns.
\<close>

definition NewPropagator ::
  "string \<Rightarrow> 'k \<Rightarrow> ('k, 'v) Encoder \<Rightarrow> ('k, 'v) Decoder \<Rightarrow> ('k, 'v) propagator" where
  "NewPropagator nm key enc dec =
     \<lparr>name = nm, contextKey = key, encoder = enc, decoder = dec\<rparr>"

definition propagator_Inject ::
  "('v, 'z) stdlib_scheme \<Rightarrow> ('k, 'v) propagator \<Rightarrow>
   ('k, 'v) Context option \<Rightarrow> Header \<Rightarrow> (error option \<times> Header) option" where
  "propagator_Inject lib p ctx h =
     (case encoder p ctx (contextKey p) of
        None \<Rightarrow> None
      | Some (data, Some err) \<Rightarrow> Some (Some err, h)
      | Some (data, None) \<Rightarrow>
          if length data = 0 then Some (None, h)
          else Some (None, Header_Set lib h (headerKey (name p)) (EncodeToString lib data)))"

definition propagator_Extract ::
  "('v, 'z) stdlib_scheme \<Rightarrow> ('k, 'v) propagator \<Rightarrow>
   ('k, 'v) Context option \<Rightarrow> Header \<Rightarrow>
   ((('k, 'v) Context option \<times> error option) \<times> Header) option" where
  "propagator_Extract lib p ctx h =
     (let vStr = Header_Get lib h (headerKey (name p)) in
      if vStr = [] then Some ((ctx, None), h)
      else
        (case DecodeString lib vStr of
           (v, Some err) \<Rightarrow> Some ((None, Some err), h)
         | (v, None) \<Rightarrow>
             (case decoder p ctx (contextKey p) v of
                None \<Rightarrow> None
              | Some r \<Rightarrow> Some (r, h))))"

definition propagator_Propagator ::
  "('v, 'z) stdlib_scheme \<Rightarrow> ('k, 'v) propagator \<Rightarrow> ('k, 'v) Propagator" where
  "propagator_Propagator lib p =
     \<lparr>method_Inject = propagator_Inject lib p,
      method_Extract = propagator_Extract lib p\<rparr>"

definition json_propagator_go_NewJSONPropagator ::
  "('v, 'z) stdlib_scheme \<Rightarrow> string \<Rightarrow> 'k \<Rightarrow> ('k, 'v) propagator" where
  "json_propagator_go_NewJSONPropagator lib nm key =
     NewPropagator nm key (jsonEncoder lib) (jsonDecoder lib)"

section \<open>The register\<close>

text \<open>
  \<^verbatim>\<open>propagatorRegister\<close>: the list of propagators (the mutex is not modelled). The
  package variable \<^verbatim>\<open>register\<close> is passed explicitly. The two files hold the same
  \<^verbatim>\<open>add\<close>, \<^verbatim>\<open>Inject\<close> and \<^verbatim>\<open>Extract\<close> methods.
\<close>

record ('k, 'v) propagatorRegister =
  propagators :: "('k, 'v) Propagator list"

definition add ::
  "('k, 'v) propagatorRegister \<Rightarrow> ('k, 'v) Propagator list \<Rightarrow> ('k, 'v) propagatorRegister" where
  "add r ps = r\<lparr>propagators := propagators r @ ps\<rparr>"

definition Configure ::
  "('k, 'v) propagatorRegister \<Rightarrow> ('k, 'v) Propagator list \<Rightarrow> ('k, 'v) propagatorRegister" where
  "Configure register ps = add register ps"

text \<open>The loop \<^verbatim>\<open>for _, p := range r.propagators\<close> of \<^verbatim>\<open>Inject\<close>.\<close>

fun Inject_range ::
  "('k, 'v) Propagator list \<Rightarrow> ('k, 'v) Context option \<Rightarrow> Header \<Rightarrow>
   (error option \<times> Header) option" where
  "Inject_range [] ctx h = Some (None, h)"
| "Inject_range (p # ps) ctx h =
     (case method_Inject p ctx h of
        None \<Rightarrow> None
      | Some (Some err, h') \<Rightarrow> Some (Some err, h')
      | Some (None, h') \<Rightarrow> Inject_range ps ctx h')"

definition propagatorRegister_Inject ::
  "('k, 'v) propagatorRegister \<Rightarrow> ('k, 'v) Context option \<Rightarrow> Header \<Rightarrow>
   (error option \<times> Header) option" where
  "propagatorRegister_Inject r ctx h = Inject_range (propagators r) ctx h"

text \<open>The loop of \<^verbatim>\<open>Extract\<close>: \<^verbatim>\<open>ctx\<close> is reassigned at every step.\<close>

fun Extract_range ::
  "('k, 'v) Propagator list \<Rightarrow> ('k, 'v) Context option \<Rightarrow> Header \<Rightarrow>
   ((('k, 'v) Context option \<times> error option) \<times> Header) option" where
  "Extract_range [] ctx h = Some ((ctx, None), h)"
| "Extract_range (p # ps) ctx h =
     (case method_Extract p ctx h of
        None \<Rightarrow> None
      | Some ((ctx', Some err), h') \<Rightarrow> Some ((None, Some err), h')
      | Some ((ctx', None), h') \<Rightarrow> Extract_range ps ctx' h')"

definition propagatorRegister_Extract ::
  "('k, 'v) propagatorRegister \<Rightarrow> ('k, 'v) Context option \<Rightarrow> Header \<Rightarrow>
   ((('k, 'v) Context option \<times> error option) \<times> Header) option" where
  "propagatorRegister_Extract r ctx h = Extract_range (propagators r) ctx h"

section \<open>The package functions\<close>

text \<open>\<^verbatim>\<open>Inject\<close> and \<^verbatim>\<open>Extract\<close> of the single-file package.\<close>

definition Inject ::
  "('k, 'v) propagatorRegister \<Rightarrow> ('k, 'v) Context option \<Rightarrow> Header \<Rightarrow>
   (error option \<times> Header) option" where
  "Inject register ctx h =
     (case propagatorRegister_Inject register ctx h of
        None \<Rightarrow> None
      | Some (Some err, h') \<Rightarrow> Some (Some (newError ''inject context values'' err), h')
      | Some (None, h') \<Rightarrow> Some (None, h'))"

definition Extract ::
  "('k, 'v) propagatorRegister \<Rightarrow> ('k, 'v) Context option \<Rightarrow> Header \<Rightarrow>
   ((('k, 'v) Context option \<times> error option) \<times> Header) option" where
  "Extract register ctx h =
     (case propagatorRegister_Extract register ctx h of
        None \<Rightarrow> None
      | Some ((newCtx, Some err), h') \<Rightarrow>
          Some ((None, Some (newError ''extract context values'' err)), h')
      | Some ((newCtx, None), h') \<Rightarrow> Some ((newCtx, None), h'))"

text \<open>\<^verbatim>\<open>Inject\<close> and \<^verbatim>\<open>Extract\<close> of propagator.go, with the \<^verbatim>\<open>newError\<close> of error.go.\<close>

definition propagator_go_Inject ::
  "('k, 'v) propagatorRegister \<Rightarrow> ('k, 'v) Context option \<Rightarrow> Header \<Rightarrow>
   (error option \<times> Header) option" where
  "propagator_go_Inject register ctx h =
     (case propagatorRegister_Inject register ctx h of
        None \<Rightarrow> None
      | Some (Some err, h') \<Rightarrow> Some (Some (error_go_newError ''inject context into header'' err), h')
      | Some (None, h') \<Rightarrow> Some (None, h'))"

definition propagator_go_Extract ::
  "('k, 'v) propagatorRegister \<Rightarrow> ('k, 'v) Context option \<Rightarrow> Header \<Rightarrow>
   ((('k, 'v) Context option \<times> error option) \<times> Header) option" where
  "propagator_go_Extract register ctx h =
     (case propagatorRegister_Extract register ctx h of
        None \<Rightarrow> None
      | Some ((newCtx, Some err), h') \<Rightarrow>
          Some ((None, Some (error_go_newError ''extract context from header'' err)), h')
      | Some ((newCtx, None), h') \<Rightarrow> Some ((newCtx, None), h'))"

section \<open>Transport decorators\<close>

text \<open>
  Of \<^verbatim>\<open>*http.Request\<close> the decorators use the context and the header, of
  \<^verbatim>\<open>*http.Response\<close> the header. A \<^verbatim>\<open>http.RoundTripper\<close> gets the request by
  pointer, so it returns the request it leaves behind beside its result pair.
\<close>

record ('k, 'v) Request =
  req_ctx :: "('k, 'v) Context option"
  req_Header :: Header

record Response =
  resp_Header :: Header

type_synonym ('k, 'v) RoundTripper =
  "('k, 'v) Request \<Rightarrow> ((Response option \<times> error option) \<times> ('k, 'v) Request) option"

text \<open>
  \<^verbatim>\<open>(*http.Request).Context\<close> is never nil (it defaults to the background context);
  \<^verbatim>\<open>(*http.Request).WithContext\<close> panics on a nil context.
\<close>

definition Request_Context :: "('k, 'v) Request \<Rightarrow> ('k, 'v) Context" where
  "Request_Context req = (case req_ctx req of None \<Rightarrow> Background | Some c \<Rightarrow> c)"

definition Request_WithContext ::
  "('k, 'v) Request \<Rightarrow> ('k, 'v) Context option \<Rightarrow> ('k, 'v) Request option" where
  "Request_WithContext req ctx =
     (case ctx of None \<Rightarrow> None | Some c \<Rightarrow> Some (req\<lparr>req_ctx := Some c\<rparr>))"

text \<open>
  \<^verbatim>\<open>(*extractTransport).RoundTrip\<close>; \<open>inner\<close> is the embedded \<^verbatim>\<open>http.RoundTripper\<close>.
  Reading \<^verbatim>\<open>resp.Header\<close> of a nil response panics.
\<close>

definition extractTransport_RoundTrip ::
  "('k, 'v) propagatorRegister \<Rightarrow> ('k, 'v) RoundTripper \<Rightarrow> ('k, 'v) RoundTripper" where
  "extractTransport_RoundTrip register inner req =
     (case inner req of
        None \<Rightarrow> None
      | Some ((resp, Some err), req') \<Rightarrow> Some ((None, Some err), req')
      | Some ((None, None), req') \<Rightarrow> None
      | Some ((Some resp, None), req') \<Rightarrow>
          (case Extract register (Some (Request_Context req')) (resp_Header resp) of
             None \<Rightarrow> None
           | Some ((ctx, Some err), h') \<Rightarrow>
               Some ((Some (resp\<lparr>resp_Header := h'\<rparr>), Some err), req')
           | Some ((ctx, None), h') \<Rightarrow>
               (case Request_WithContext req' ctx of
                  None \<Rightarrow> None
                | Some req'' \<Rightarrow> Some ((Some (resp\<lparr>resp_Header := h'\<rparr>), None), req''))))"

definition ExtractTransport ::
  "('k, 'v) propagatorRegister \<Rightarrow> ('k, 'v) RoundTripper \<Rightarrow> ('k, 'v) RoundTripper" where
  "ExtractTransport register t = extractTransport_RoundTrip register t"

text \<open>\<^verbatim>\<open>(*injectTransport).RoundTrip\<close>.\<close>

definition injectTransport_RoundTrip ::
  "('k, 'v) propagatorRegister \<Rightarrow> ('k, 'v) RoundTripper \<Rightarrow> ('k, 'v) RoundTripper" where
  "injectTransport_RoundTrip register inner req =
     (case Inject register (Some (Request_Context req)) (req_Header req) of
        None \<Rightarrow> None
      | Some (Some err, h') \<Rightarrow> Some ((None, Some err), req\<lparr>req_Header := h'\<rparr>)
      | Some (None, h') \<Rightarrow> inner (req\<lparr>req_Header := h'\<rparr>))"

definition InjectTransport ::
  "('k, 'v) propagatorRegister \<Rightarrow> ('k, 'v) RoundTripper \<Rightarrow> ('k, 'v) RoundTripper" where
  "InjectTransport register t = injectTransport_RoundTrip register t"

definition Transport ::
  "('k, 'v) propagatorRegister \<Rightarrow> ('k, 'v) RoundTripper \<Rightarrow> ('k, 'v) RoundTripper" where
  "Transport register t = InjectTransport register (ExtractTransport register t)"

section \<open>An instance of the library functions, and example propagators\<close>

text \<open>
  The examples below run the package on concrete inputs. They need concrete library
  functions: the canonical form of a header key made of letters, digits and hyphens,
  base64 with the standard alphabet and padding (RFC 4648), and a stand-in for
  encoding/json on Go strings that need no escaping (the document of \<^verbatim>\<open>s\<close> is \<^verbatim>\<open>s\<close>
  between double quotes; \<^verbatim>\<open>null\<close> decodes to nil).
\<close>

definition byte_of_nat :: "nat \<Rightarrow> char" where
  "byte_of_nat n =
     Char (odd n) (odd (n div 2)) (odd (n div 4)) (odd (n div 8))
          (odd (n div 16)) (odd (n div 32)) (odd (n div 64)) (odd (n div 128))"

definition upper :: "char \<Rightarrow> char" where
  "upper c = (let n = (of_char c :: nat) in if 97 \<le> n \<and> n \<le> 122 then byte_of_nat (n - 32) else c)"

definition lower :: "char \<Rightarrow> char" where
  "lower c = (let n = (of_char c :: nat) in if 65 \<le> n \<and> n \<le> 90 then byte_of_nat (n + 32) else c)"

definition token_char :: "char \<Rightarrow> bool" where
  "token_char c =
     (let n = (of_char c :: nat) in
      (97 \<le> n \<and> n \<le> 122) \<or> (65 \<le> n \<and> n \<le> 90) \<or> (48 \<le> n \<and> n \<le> 57) \<or> c = CHR ''-'')"

fun canonical_from :: "bool \<Rightarrow> string \<Rightarrow> string" where
  "canonical_from up [] = []"
| "canonical_from up (c # cs) =
     (if up then upper c else lower c) # canonical_from (c = CHR ''-'') cs"

definition std_CanonicalMIMEHeaderKey :: "string \<Rightarrow> string" where
  "std_CanonicalMIMEHeaderKey s = (if list_all token_char s then canonical_from True s else s)"

definition b64_alphabet :: string where
  "b64_alphabet = ''ABCDEFGHIJKLMNOPQRSTUVWXYZabcdefghijklmnopqrstuvwxyz0123456789+/''"

definition b64_char :: "nat \<Rightarrow> char" where
  "b64_char n = b64_alphabet ! (n mod 64)"

fun std_EncodeToString :: "bytes \<Rightarrow> string" where
  "std_EncodeToString [] = []"
| "std_EncodeToString [a] =
     (let n = (of_char a :: nat) * 65536 in
      [b64_char (n div 262144), b64_char (n div 4096), CHR ''='', CHR ''=''])"
| "std_EncodeToString [a, b] =
     (let n = (of_char a :: nat) * 65536 + of_char b * 256 in
      [b64_char (n div 262144), b64_char (n div 4096), b64_char (n div 64), CHR ''=''])"
| "std_EncodeToString (a # b # c # rest) =
     (let n = (of_char a :: nat) * 65536 + of_char b * 256 + of_char c in
      [b64_char (n div 262144), b64_char (n div 4096), b64_char (n div 64), b64_char n]
      @ std_EncodeToString rest)"

definition b64_index :: "char \<Rightarrow> nat option" where
  "b64_index c =
     (let n = (of_char c :: nat) in
      if 65 \<le> n \<and> n \<le> 90 then Some (n - 65)
      else if 97 \<le> n \<and> n \<le> 122 then Some (n - 71)
      else if 48 \<le> n \<and> n \<le> 57 then Some (n + 4)
      else if c = CHR ''+'' then Some 62
      else if c = CHR ''/'' then Some 63
      else None)"

definition b64_corrupt :: "bytes \<times> error option" where
  "b64_corrupt = ([], Some (Foreign ''illegal base64 data''))"

fun std_DecodeString :: "string \<Rightarrow> bytes \<times> error option" where
  "std_DecodeString [] = ([], None)"
| "std_DecodeString [c1, c2, c3, c4] =
     (case (b64_index c1, b64_index c2) of
        (Some i1, Some i2) \<Rightarrow>
          (if c3 = CHR ''='' \<and> c4 = CHR ''='' then
             ([byte_of_nat ((i1 * 64 + i2) div 16)], None)
           else
             (case b64_index c3 of
                None \<Rightarrow> b64_corrupt
              | Some i3 \<Rightarrow>
                  (if c4 = CHR ''='' then
                     (let n = (i1 * 4096 + i2 * 64 + i3) div 4 in
                      [byte_of_nat (n div 256), byte_of_nat n], None)
                   else
                     (case b64_index c4 of
                        None \<Rightarrow> b64_corrupt
                      | Some i4 \<Rightarrow>
                          (let n = i1 * 262144 + i2 * 4096 + i3 * 64 + i4 in
                           [byte_of_nat (n div 65536), byte_of_nat (n div 256), byte_of_nat n], None)))))
      | _ \<Rightarrow> b64_corrupt)"
| "std_DecodeString (c1 # c2 # c3 # c4 # rest) =
     (case (b64_index c1, b64_index c2, b64_index c3, b64_index c4) of
        (Some i1, Some i2, Some i3, Some i4) \<Rightarrow>
          (let n = i1 * 262144 + i2 * 4096 + i3 * 64 + i4 in
           case std_DecodeString rest of
             (out, None) \<Rightarrow> (byte_of_nat (n div 65536) # byte_of_nat (n div 256) # byte_of_nat n # out, None)
           | (out, Some err) \<Rightarrow> ([], Some err))
      | _ \<Rightarrow> b64_corrupt)"
| "std_DecodeString cs = b64_corrupt"

definition quote :: char where
  "quote = CHR 0x22"

definition std_Marshal :: "string \<Rightarrow> bytes \<times> error option" where
  "std_Marshal s = (quote # s @ [quote], None)"

definition std_Unmarshal :: "bytes \<Rightarrow> string option \<times> error option" where
  "std_Unmarshal data =
     (if data = ''null'' then (None, None)
      else if 2 \<le> length data \<and> hd data = quote \<and> last data = quote
             \<and> quote \<notin> set (butlast (tl data))
      then (Some (butlast (tl data)), None)
      else (None, Some (Foreign ''invalid character looking for beginning of value'')))"

definition std :: "string stdlib" where
  "std = \<lparr>CanonicalMIMEHeaderKey = std_CanonicalMIMEHeaderKey,
          EncodeToString = std_EncodeToString,
          DecodeString = std_DecodeString,
          Marshal = std_Marshal,
          Unmarshal = std_Unmarshal\<rparr>"

text \<open>The empty header carrier \<^verbatim>\<open>http.Header{}\<close>.\<close>

definition no_headers :: Header where
  "no_headers = (\<lambda>k. None)"

text \<open>
  A codec that carries a Go string as its own bytes:
  \<^verbatim>\<open>func(ctx, key) ([]byte, error) { s, _ := ctx.Value(key).(string); return []byte(s), nil }\<close>
  and
  \<^verbatim>\<open>func(ctx, key, data) (context.Context, error) { return context.WithValue(ctx, key, string(data)), nil }\<close>.
\<close>

definition rawEncoder :: "(string, string) Encoder" where
  "rawEncoder ctx key =
     (case ctx of
        None \<Rightarrow> None
      | Some c \<Rightarrow> (case Value c key of None \<Rightarrow> Some ([], None) | Some s \<Rightarrow> Some (s, None)))"

definition rawDecoder :: "(string, string) Decoder" where
  "rawDecoder ctx key data =
     (case ctx of
        None \<Rightarrow> None
      | Some c \<Rightarrow> Some (Some (WithValue c key (Some data)), None))"

text \<open>An encoder and a decoder that fail, and a propagator whose methods panic.\<close>

definition failingEncoder :: "(string, string) Encoder" where
  "failingEncoder ctx key = Some ([], Some (Foreign ''boom''))"

definition failingDecoder :: "(string, string) Decoder" where
  "failingDecoder ctx key data = Some (None, Some (Foreign ''bad payload''))"

definition panicking :: "(string, string) Propagator" where
  "panicking = \<lparr>method_Inject = (\<lambda>ctx h. None), method_Extract = (\<lambda>ctx h. None)\<rparr>"

text \<open>
  A decoder that reads the key \<^verbatim>\<open>user\<close> of the context it is given and stores the
  payload prefixed with that user.
\<close>

definition userDecoder :: "(string, string) Decoder" where
  "userDecoder ctx key data =
     (case ctx of
        None \<Rightarrow> None
      | Some c \<Rightarrow>
          (case Value c ''user'' of
             None \<Rightarrow> Some (None, Some (Foreign ''no user''))
           | Some u \<Rightarrow> Some (Some (WithValue c key (Some (u @ '':'' @ data))), None)))"

text \<open>
  A propagator of another implementation: its methods return an error that is not a
  \<^verbatim>\<open>*Error\<close> and leave the carrier alone.
\<close>

definition refusing :: "(string, string) Propagator" where
  "refusing =
     \<lparr>method_Inject = (\<lambda>ctx h. Some (Some (Foreign ''refused''), h)),
      method_Extract = (\<lambda>ctx h. Some ((None, Some (Foreign ''refused'')), h))\<rparr>"

text \<open>The JSON document of the Go string \<^verbatim>\<open>foo\<close>.\<close>

definition foo_json :: bytes where
  "foo_json = quote # ''foo'' @ [quote]"

section \<open>Predicates used to state the properties\<close>

text \<open>
  \<open>decode_failure lib p ctx h label e\<close>: on the carrier \<open>h\<close> the field of \<open>p\<close> is
  present, and either its base64 decoding fails with \<open>e\<close> (stage
  \<^verbatim>\<open>base64 decode context value\<close>), or the decoder of \<open>p\<close>, run on \<open>ctx\<close> and the decoded
  payload, fails with \<open>e\<close> (stage \<^verbatim>\<open>decode context value\<close>).
\<close>

definition decode_failure ::
  "('v, 'z) stdlib_scheme \<Rightarrow> ('k, 'v) ValuePropagator \<Rightarrow> ('k, 'v) Context option \<Rightarrow> Header \<Rightarrow>
   string \<Rightarrow> error \<Rightarrow> bool" where
  "decode_failure lib p ctx h label e =
     (let vStr = Header_Get lib h (headerKey (name p)) in
      vStr \<noteq> [] \<and>
      (case DecodeString lib vStr of
         (v, Some err) \<Rightarrow> label = ''base64 decode context value'' \<and> e = err
       | (v, None) \<Rightarrow>
           (case decoder p ctx (contextKey p) v of
              Some (newCtx, Some err) \<Rightarrow> label = ''decode context value'' \<and> e = err
            | _ \<Rightarrow> False)))"

section \<open>Properties\<close>

subsection \<open>Errors\<close>

lemma chain_self: "err \<in> set (chain err)"
  by (cases err) simp_all

lemma errors_Is_newError: "errors_Is (newError message err) err"
  by (simp add: newError_def errors_Is_def chain_self)

lemma errors_As_newError: "errors_As (newError message err)"
  by (simp add: newError_def)

lemma newError_idem: "newError m1 (newError m2 err) = newError m2 err"
  by (simp add: newError_def)

subsection \<open>Contexts and carriers\<close>

lemma Value_unbound: "\<not> bound c key \<Longrightarrow> Value c key = None"
  by (induction c) auto

lemma Header_Get_empty_iff:
  "Header_Get lib h key = [] \<longleftrightarrow>
     (case h (CanonicalMIMEHeaderKey lib key) of None \<Rightarrow> True | Some vs \<Rightarrow> vs = [] \<or> hd vs = [])"
  by (simp add: Header_Get_def split: option.splits list.splits)

subsection \<open>The example library on the example inputs\<close>

lemma std_key_str: "CanonicalMIMEHeaderKey std (headerKey ''str'') = ''X-Ctxwire-Str''"
  by (simp add: std_def std_CanonicalMIMEHeaderKey_def headerKey_def token_char_def upper_def
      lower_def byte_of_nat_def)

lemma std_key_int: "CanonicalMIMEHeaderKey std (headerKey ''int'') = ''X-Ctxwire-Int''"
  by (simp add: std_def std_CanonicalMIMEHeaderKey_def headerKey_def token_char_def upper_def
      lower_def byte_of_nat_def)

lemma foo_json_not_empty: "foo_json \<noteq> []"
  by (simp add: foo_json_def)

lemma std_Marshal_foo: "Marshal std ''foo'' = (foo_json, None)"
  by (simp add: std_def std_Marshal_def foo_json_def)

lemma std_Unmarshal_foo: "Unmarshal std foo_json = (Some ''foo'', None)"
  by (simp add: std_def std_Unmarshal_def quote_def foo_json_def)

lemma std_Encode_foo: "EncodeToString std foo_json = ''ImZvbyI=''"
  by (simp add: std_def quote_def b64_char_def b64_alphabet_def foo_json_def)

lemma std_Decode_foo: "DecodeString std ''ImZvbyI='' = (foo_json, None)"
  by (simp add: std_def quote_def b64_index_def byte_of_nat_def foo_json_def)

lemma std_Decode_raw: "DecodeString std ''Zm9v'' = (''foo'', None)"
  by (simp add: std_def b64_index_def byte_of_nat_def)

lemma std_Decode_hi: "DecodeString std ''aGk='' = (''hi'', None)"
  by (simp add: std_def b64_index_def byte_of_nat_def)

lemma std_Decode_bad: "DecodeString std ''Zm9'' = ([], Some (Foreign ''illegal base64 data''))"
  by (simp add: std_def b64_corrupt_def)

lemmas example_defs =
  NewJSONPropagator_def NewValuePropagator_def NewPropagator_def
  json_propagator_go_NewJSONPropagator_def
  encodeJSON_def decodeJSON_def jsonEncoder_def jsonDecoder_def
  rawEncoder_def rawDecoder_def failingEncoder_def failingDecoder_def userDecoder_def
  panicking_def refusing_def no_headers_def

lemmas std_examples =
  std_key_str std_key_int std_Marshal_foo std_Unmarshal_foo std_Encode_foo std_Decode_foo
  std_Decode_raw std_Decode_hi std_Decode_bad

subsection \<open>The example base64 functions invert each other\<close>

text \<open>
  On every payload, decoding the text the example encoder produces gives the payload
  back, and the text of a non-empty payload is not empty: the assumptions the round-trip
  property makes on the library functions hold for base64 as RFC 4648 defines it.
\<close>

lemma byte_of_nat_char_of: "byte_of_nat n = char_of n"
  by (simp add: byte_of_nat_def char_of_def bit_iff_odd)

lemma b64_table:
  "list_all (\<lambda>i. b64_index (b64_alphabet ! i) = Some i \<and> b64_alphabet ! i \<noteq> CHR ''='') [0..<64]"
  by (simp add: upt_conv_Cons b64_index_def b64_alphabet_def)

lemma b64_index_char: "b64_index (b64_char n) = Some (n mod 64)"
  using b64_table by (simp add: b64_char_def list_all_iff)

lemma b64_char_not_pad: "b64_char n \<noteq> CHR ''=''"
  using b64_table by (simp add: b64_char_def list_all_iff)

lemma div64_step: "(x::nat) = x div 64 * 64 + x mod 64"
  by simp

lemma split24:
  assumes "n < 16777216"
  shows "(n div 262144) mod 64 * 262144 + (n div 4096) mod 64 * 4096 + (n div 64) mod 64 * 64
           + n mod 64 = (n::nat)"
proof -
  have q2: "n div 64 div 64 = n div 4096"
    by (simp add: div_mult2_eq [symmetric])
  have q3: "n div 4096 div 64 = n div 262144"
    by (simp add: div_mult2_eq [symmetric])
  have top: "n div 262144 < 64"
    using assms by (simp add: less_mult_imp_div_less)
  have a: "n = n div 64 * 64 + n mod 64"
    by simp
  have b: "n div 64 = n div 4096 * 64 + n div 64 mod 64"
    using div64_step [of "n div 64"] by (simp only: q2)
  have c: "n div 4096 = n div 262144 * 64 + n div 4096 mod 64"
    using div64_step [of "n div 4096"] by (simp only: q3)
  have "n = ((n div 262144 * 64 + n div 4096 mod 64) * 64 + n div 64 mod 64) * 64 + n mod 64"
    using a b c by presburger
  then show ?thesis
    using top by (simp add: algebra_simps)
qed

lemma of_char_bound: "(of_char c :: nat) < 256"
  by (rule nat_of_char_less_256)

lemma decode_quad:
  "std_DecodeString [b64_char w, b64_char x, b64_char y, b64_char z]
     = (let n = w mod 64 * 262144 + x mod 64 * 4096 + y mod 64 * 64 + z mod 64 in
        ([byte_of_nat (n div 65536), byte_of_nat (n div 256), byte_of_nat n], None))"
  by (simp add: b64_index_char b64_char_not_pad Let_def)

lemma decode_quad_more:
  "r \<noteq> [] \<Longrightarrow>
   std_DecodeString (b64_char w # b64_char x # b64_char y # b64_char z # r)
     = (let n = w mod 64 * 262144 + x mod 64 * 4096 + y mod 64 * 64 + z mod 64 in
        case std_DecodeString r of
          (out, None) \<Rightarrow> (byte_of_nat (n div 65536) # byte_of_nat (n div 256) # byte_of_nat n # out, None)
        | (out, Some err) \<Rightarrow> ([], Some err))"
  by (cases r) (simp_all add: b64_index_char Let_def)

lemma div_mod_256:
  fixes q r :: nat
  assumes "r < 256"
  shows "(q * 256 + r) div 256 = q" "(q * 256 + r) mod 256 = r"
  using assms by simp_all

lemma bytes3:
  fixes a b c :: char
  defines "n \<equiv> (of_char a :: nat) * 65536 + of_char b * 256 + of_char c"
  shows "n < 16777216" "byte_of_nat (n div 65536) = a" "byte_of_nat (n div 256) = b"
    "byte_of_nat n = c"
proof -
  have A: "(of_char a :: nat) < 256" and B: "(of_char b :: nat) < 256"
    and C: "(of_char c :: nat) < 256"
    by (rule of_char_bound)+
  show "n < 16777216"
    using A B C unfolding n_def by linarith
  have shape: "n = (of_char a * 256 + of_char b) * 256 + of_char c"
    by (simp add: n_def algebra_simps)
  have d1: "n div 256 = of_char a * 256 + of_char b"
    unfolding shape using C by (rule div_mod_256(1))
  have "n div 256 div 256 = of_char a"
    unfolding d1 using B by (rule div_mod_256(1))
  then have "n div 65536 = of_char a"
    by (simp add: div_mult2_eq [symmetric])
  then show "byte_of_nat (n div 65536) = a"
    by (simp add: byte_of_nat_char_of)
  have "n div 256 mod 256 = of_char b"
    unfolding d1 using B by (rule div_mod_256(2))
  then have "char_of (n div 256 mod 256) = b"
    by simp
  then show "byte_of_nat (n div 256) = b"
    by (simp add: byte_of_nat_char_of)
  have "n mod 256 = of_char c"
    unfolding shape using C by (rule div_mod_256(2))
  then have "char_of (n mod 256) = c"
    by simp
  then show "byte_of_nat n = c"
    by (simp add: byte_of_nat_char_of)
qed

lemma std_round_trip3:
  "std_DecodeString (std_EncodeToString [a, b, c]) = ([a, b, c], None)"
proof -
  define n where "n = (of_char a :: nat) * 65536 + of_char b * 256 + of_char c"
  have n: "n < 16777216"
    unfolding n_def by (rule bytes3(1))
  have "std_DecodeString (std_EncodeToString [a, b, c])
          = std_DecodeString [b64_char (n div 262144), b64_char (n div 4096), b64_char (n div 64), b64_char n]"
    by (simp add: n_def Let_def)
  also have "\<dots> = ([byte_of_nat (n div 65536), byte_of_nat (n div 256), byte_of_nat n], None)"
    by (simp only: decode_quad Let_def split24 [OF n])
  also have "\<dots> = ([a, b, c], None)"
    unfolding n_def by (simp only: bytes3)
  finally show ?thesis .
qed

lemma split18:
  assumes "n < 262144"
  shows "(n div 4096) mod 64 * 4096 + (n div 64) mod 64 * 64 + n mod 64 = (n::nat)"
proof -
  have q2: "n div 64 div 64 = n div 4096"
    by (simp add: div_mult2_eq [symmetric])
  have top: "n div 4096 < 64"
    using assms by (simp add: less_mult_imp_div_less)
  have a: "n = n div 64 * 64 + n mod 64"
    by simp
  have b: "n div 64 = n div 4096 * 64 + n div 64 mod 64"
    using div64_step [of "n div 64"] by (simp only: q2)
  have "n = (n div 4096 * 64 + n div 64 mod 64) * 64 + n mod 64"
    using a b by presburger
  then show ?thesis
    using top by (simp add: algebra_simps)
qed

lemma decode_pad2:
  "std_DecodeString [b64_char w, b64_char x, CHR ''='', CHR ''='']
     = ([byte_of_nat ((w mod 64 * 64 + x mod 64) div 16)], None)"
  by (simp add: b64_index_char)

lemma decode_pad1:
  "std_DecodeString [b64_char w, b64_char x, b64_char y, CHR ''='']
     = (let n = (w mod 64 * 4096 + x mod 64 * 64 + y mod 64) div 4 in
        ([byte_of_nat (n div 256), byte_of_nat n], None))"
  by (simp add: b64_index_char b64_char_not_pad Let_def)

lemma pad2_value:
  assumes "(A::nat) < 256"
  shows "((A div 4) mod 64 * 64 + (A * 16) mod 64) div 16 = A"
proof -
  from assms have a: "(A div 4) mod 64 = A div 4"
    by simp
  have b: "(A * 16) mod 64 = (A mod 4) * 16"
    using mult_mod_right [of 16 A 4] by (simp add: mult.commute)
  have c: "A div 4 * 64 + A mod 4 * 16 = A * 16"
    using div_mult_mod_eq [of A 4] by linarith
  show ?thesis
    by (simp only: a b c nonzero_mult_div_cancel_right)
qed

lemma pad1_value:
  fixes A B :: nat
  shows "(A * 65536 + B * 256) div 64 = A * 1024 + B * 4"
    "(A * 65536 + B * 256) div 262144 = (A * 1024 + B * 4) div 4096"
    "(A * 65536 + B * 256) div 4096 = (A * 1024 + B * 4) div 64"
    "(A * 1024 + B * 4) div 4 = A * 256 + B"
proof -
  have s: "A * 65536 + B * 256 = (A * 1024 + B * 4) * 64"
    by simp
  show d: "(A * 65536 + B * 256) div 64 = A * 1024 + B * 4"
    by (simp only: s nonzero_mult_div_cancel_right)
  have "(A * 65536 + B * 256) div 64 div 4096 = (A * 65536 + B * 256) div 262144"
    by (simp add: div_mult2_eq [symmetric])
  then show "(A * 65536 + B * 256) div 262144 = (A * 1024 + B * 4) div 4096"
    by (simp only: d)
  have "(A * 65536 + B * 256) div 64 div 64 = (A * 65536 + B * 256) div 4096"
    by (simp add: div_mult2_eq [symmetric])
  then show "(A * 65536 + B * 256) div 4096 = (A * 1024 + B * 4) div 64"
    by (simp only: d)
  have t: "A * 1024 + B * 4 = (A * 256 + B) * 4"
    by simp
  show "(A * 1024 + B * 4) div 4 = A * 256 + B"
    by (simp only: t nonzero_mult_div_cancel_right)
qed

lemma std_round_trip1: "std_DecodeString (std_EncodeToString [a]) = ([a], None)"
proof -
  define A where "A = (of_char a :: nat)"
  have A: "A < 256"
    unfolding A_def by (rule of_char_bound)
  have w: "A * 65536 div 262144 = A div 4"
  proof -
    have "A * 65536 div 262144 = A * 65536 div 65536 div 4"
      by (simp add: div_mult2_eq [symmetric])
    then show ?thesis by simp
  qed
  have x: "A * 65536 div 4096 = A * 16"
    by simp
  have "std_DecodeString (std_EncodeToString [a])
          = std_DecodeString
              [b64_char (A * 65536 div 262144), b64_char (A * 65536 div 4096), CHR ''='', CHR ''='']"
    by (simp add: A_def Let_def)
  also have "\<dots> = ([byte_of_nat A], None)"
    by (simp only: decode_pad2 w x pad2_value [OF A])
  also have "\<dots> = ([a], None)"
    by (simp add: byte_of_nat_char_of A_def)
  finally show ?thesis .
qed

lemma std_round_trip2: "std_DecodeString (std_EncodeToString [a, b]) = ([a, b], None)"
proof -
  define A where "A = (of_char a :: nat)"
  define B where "B = (of_char b :: nat)"
  define m where "m = A * 1024 + B * 4"
  have A: "A < 256" and B: "B < 256"
    unfolding A_def B_def by (rule of_char_bound)+
  have m: "m < 262144"
    using A B unfolding m_def by linarith
  have "std_DecodeString (std_EncodeToString [a, b])
          = std_DecodeString
              [b64_char ((A * 65536 + B * 256) div 262144), b64_char ((A * 65536 + B * 256) div 4096),
               b64_char ((A * 65536 + B * 256) div 64), CHR ''='']"
    by (simp add: A_def B_def Let_def)
  also have "\<dots> = std_DecodeString
              [b64_char (m div 4096), b64_char (m div 64), b64_char m, CHR ''='']"
    by (simp only: pad1_value m_def)
  also have "\<dots> = ([byte_of_nat (m div 4 div 256), byte_of_nat (m div 4)], None)"
    by (simp only: decode_pad1 Let_def split18 [OF m])
  also have "\<dots> = ([byte_of_nat ((A * 256 + B) div 256), byte_of_nat (A * 256 + B)], None)"
    by (simp only: m_def pad1_value)
  also have "\<dots> = ([a, b], None)"
  proof -
    have "(A * 256 + B) div 256 = A"
      using B by (rule div_mod_256(1))
    moreover have "char_of (A * 256 + B) = b"
    proof -
      have "char_of (A * 256 + B) = char_of ((A * 256 + B) mod 256)"
        by (simp only: char_of_mod_256)
      also have "\<dots> = char_of B"
        by (simp only: div_mod_256(2) [OF B])
      also have "\<dots> = b"
        by (simp add: B_def)
      finally show ?thesis .
    qed
    ultimately show ?thesis
      by (simp add: byte_of_nat_char_of A_def)
  qed
  finally show ?thesis .
qed

lemma std_Encode_not_empty: "data \<noteq> [] \<Longrightarrow> std_EncodeToString data \<noteq> []"
  by (induction data rule: std_EncodeToString.induct) (simp_all add: Let_def)

lemma std_base64_round_trip: "std_DecodeString (std_EncodeToString data) = (data, None)"
proof (induction data rule: std_EncodeToString.induct)
  case 1
  show ?case by simp
next
  case (2 a)
  show ?case by (rule std_round_trip1)
next
  case (3 a b)
  show ?case by (rule std_round_trip2)
next
  case (4 a b c rest)
  define n where "n = (of_char a :: nat) * 65536 + of_char b * 256 + of_char c"
  have n: "n < 16777216"
    unfolding n_def by (rule bytes3(1))
  show ?case
  proof (cases "rest = []")
    case True
    then show ?thesis
      using std_round_trip3 [of a b c] by simp
  next
    case False
    then have r: "std_EncodeToString rest \<noteq> []"
      by (rule std_Encode_not_empty)
    have "std_DecodeString (std_EncodeToString (a # b # c # rest))
            = std_DecodeString
                (b64_char (n div 262144) # b64_char (n div 4096) # b64_char (n div 64) # b64_char n
                 # std_EncodeToString rest)"
      by (simp add: n_def Let_def)
    also have "\<dots> = (byte_of_nat (n div 65536) # byte_of_nat (n div 256) # byte_of_nat n # rest, None)"
      by (simp only: decode_quad_more [OF r] Let_def split24 [OF n] "4.IH") simp
    also have "\<dots> = (a # b # c # rest, None)"
      unfolding n_def by (simp only: bytes3)
    finally show ?thesis .
  qed
qed

lemma std_base64:
  "DecodeString std (EncodeToString std data) = (data, None)"
  "data \<noteq> [] \<Longrightarrow> EncodeToString std data \<noteq> []"
  by (simp_all add: std_def std_base64_round_trip std_Encode_not_empty)

subsection \<open>A failing decode, seen by the two propagator types\<close>

lemma decode_failure_ValuePropagator:
  "decode_failure lib p ctx h label e \<Longrightarrow>
   ValuePropagator_Extract lib p ctx h = Some ((None, Some (newError label e)), h)"
  by (auto simp: decode_failure_def ValuePropagator_Extract_def Let_def
      split: prod.splits option.splits)

lemma decode_failure_propagator:
  "decode_failure lib p ctx h label e \<Longrightarrow>
   \<exists>c. propagator_Extract lib p ctx h = Some ((c, Some e), h)"
  by (auto simp: decode_failure_def propagator_Extract_def Let_def
      split: prod.splits option.splits)

subsection \<open>Fail-void on Extract\<close>

text \<open>
  C1. Register [A, B, C]. A's \<^verbatim>\<open>Extract\<close> succeeds and yields the extended context
  \<open>ctxA\<close>; then the base64 decoding of B's field, or B's decoder, fails with \<open>e\<close>.
  The register's \<^verbatim>\<open>Extract\<close> returns a nil context and B's error: \<open>newError label e\<close>
  for a \<^verbatim>\<open>ValuePropagator\<close>, which wraps \<open>e\<close> under the stage label; \<open>e\<close> itself for a
  \<^verbatim>\<open>propagator\<close> of propagator.go, which the package function \<^verbatim>\<open>Extract\<close> of that file
  then wraps. The context \<open>ctxA\<close> is not returned. C is an arbitrary propagator and has
  no part in the result: it is not called (the result is the same for a C whose
  methods panic).
\<close>

theorem extract_fail_void:
  assumes A: "method_Extract A ctx h = Some ((ctxA, None), hA)"
    and B: "decode_failure lib b ctxA hA label e"
  shows "propagatorRegister_Extract
           \<lparr>propagators = [A, ValuePropagator_Propagator lib b, C]\<rparr> ctx h
           = Some ((None, Some (newError label e)), hA) \<and>
         Extract \<lparr>propagators = [A, ValuePropagator_Propagator lib b, C]\<rparr> ctx h
           = Some ((None, Some (newError label e)), hA) \<and>
         propagatorRegister_Extract
           \<lparr>propagators = [A, propagator_Propagator lib b, C]\<rparr> ctx h
           = Some ((None, Some e), hA) \<and>
         propagator_go_Extract \<lparr>propagators = [A, propagator_Propagator lib b, C]\<rparr> ctx h
           = Some ((None, Some (Error ''extract context from header'' e)), hA)"
proof -
  from B have v2: "ValuePropagator_Extract lib b ctxA hA = Some ((None, Some (newError label e)), hA)"
    by (rule decode_failure_ValuePropagator)
  from B obtain c where v1: "propagator_Extract lib b ctxA hA = Some ((c, Some e), hA)"
    using decode_failure_propagator by blast
  have r2: "propagatorRegister_Extract
           \<lparr>propagators = [A, ValuePropagator_Propagator lib b, C]\<rparr> ctx h
           = Some ((None, Some (newError label e)), hA)"
    by (simp add: propagatorRegister_Extract_def ValuePropagator_Propagator_def A v2)
  have r1: "propagatorRegister_Extract
           \<lparr>propagators = [A, propagator_Propagator lib b, C]\<rparr> ctx h
           = Some ((None, Some e), hA)"
    by (simp add: propagatorRegister_Extract_def propagator_Propagator_def A v1)
  show ?thesis
    by (simp add: r1 r2 Extract_def propagator_go_Extract_def newError_idem error_go_newError_def)
qed

theorem extract_fail_void_witness:
  "propagatorRegister_Extract
     \<lparr>propagators =
        [ValuePropagator_Propagator std (NewJSONPropagator std ''str'' ''str-key''),
         ValuePropagator_Propagator std (NewValuePropagator ''int'' ''int-key'' rawEncoder failingDecoder),
         panicking]\<rparr>
     (Some Background)
     (no_headers(''X-Ctxwire-Str'' \<mapsto> [''ImZvbyI=''], ''X-Ctxwire-Int'' \<mapsto> [''Zm9v'']))
   = Some ((None, Some (Error ''decode context value'' (Foreign ''bad payload''))),
           no_headers(''X-Ctxwire-Str'' \<mapsto> [''ImZvbyI=''], ''X-Ctxwire-Int'' \<mapsto> [''Zm9v'']))"
proof -
  let ?h = "no_headers(''X-Ctxwire-Str'' \<mapsto> [''ImZvbyI=''], ''X-Ctxwire-Int'' \<mapsto> [''Zm9v''])"
  let ?b = "NewValuePropagator ''int'' ''int-key'' rawEncoder failingDecoder"
  let ?ctxA = "Some (WithValue Background ''str-key'' (Some ''foo''))"
  have A: "method_Extract (ValuePropagator_Propagator std (NewJSONPropagator std ''str'' ''str-key''))
             (Some Background) ?h = Some ((?ctxA, None), ?h)"
    by (simp add: ValuePropagator_Propagator_def ValuePropagator_Extract_def Header_Get_def
        example_defs std_examples)
  have B: "decode_failure std ?b ?ctxA ?h ''decode context value'' (Foreign ''bad payload'')"
    by (simp add: decode_failure_def Header_Get_def example_defs std_examples)
  from extract_fail_void [OF A B, of panicking] show ?thesis
    by (simp add: newError_def)
qed

subsection \<open>Fail-stop on Inject\<close>

text \<open>
  C2. Register [A, B, C]. A's encoder yields the non-empty payload \<open>dataA\<close>; B's encoder
  fails with \<open>e\<close>. The register's \<^verbatim>\<open>Inject\<close> returns B's error (\<open>e\<close> under the label
  \<^verbatim>\<open>encode context value\<close> for a \<^verbatim>\<open>ValuePropagator\<close>; \<open>e\<close> itself for a \<^verbatim>\<open>propagator\<close>
  of propagator.go, wrapped by the package function \<^verbatim>\<open>Inject\<close> of that file). The carrier
  left behind is the one A wrote: A's field holds the base64 text of \<open>dataA\<close>, and every
  entry under another canonical key, C's among them, is as before the call. C is an
  arbitrary propagator; it is not called.
\<close>

theorem inject_fail_stop:
  assumes A: "encoder a ctx (contextKey a) = Some (dataA, None)" "dataA \<noteq> []"
    and B: "encoder b ctx (contextKey b) = Some (dataB, Some e)"
    and hA: "hA = Header_Set lib h (headerKey (name a)) (EncodeToString lib dataA)"
  shows "propagatorRegister_Inject
           \<lparr>propagators = [ValuePropagator_Propagator lib a, ValuePropagator_Propagator lib b, C]\<rparr>
           ctx h = Some (Some (newError ''encode context value'' e), hA) \<and>
         Inject
           \<lparr>propagators = [ValuePropagator_Propagator lib a, ValuePropagator_Propagator lib b, C]\<rparr>
           ctx h = Some (Some (newError ''encode context value'' e), hA) \<and>
         propagatorRegister_Inject
           \<lparr>propagators = [propagator_Propagator lib a, propagator_Propagator lib b, C]\<rparr>
           ctx h = Some (Some e, hA) \<and>
         propagator_go_Inject
           \<lparr>propagators = [propagator_Propagator lib a, propagator_Propagator lib b, C]\<rparr>
           ctx h = Some (Some (Error ''inject context into header'' e), hA) \<and>
         Header_Get lib hA (headerKey (name a)) = EncodeToString lib dataA \<and>
         (\<forall>k. CanonicalMIMEHeaderKey lib k \<noteq> CanonicalMIMEHeaderKey lib (headerKey (name a)) \<longrightarrow>
              hA (CanonicalMIMEHeaderKey lib k) = h (CanonicalMIMEHeaderKey lib k))"
proof -
  have a2: "ValuePropagator_Inject lib a ctx h = Some (None, hA)"
    and a1: "propagator_Inject lib a ctx h = Some (None, hA)"
    using A by (simp_all add: ValuePropagator_Inject_def propagator_Inject_def hA)
  have b2: "ValuePropagator_Inject lib b ctx hA = Some (Some (newError ''encode context value'' e), hA)"
    and b1: "propagator_Inject lib b ctx hA = Some (Some e, hA)"
    using B by (simp_all add: ValuePropagator_Inject_def propagator_Inject_def)
  have r2: "propagatorRegister_Inject
           \<lparr>propagators = [ValuePropagator_Propagator lib a, ValuePropagator_Propagator lib b, C]\<rparr>
           ctx h = Some (Some (newError ''encode context value'' e), hA)"
    by (simp add: propagatorRegister_Inject_def ValuePropagator_Propagator_def a2 b2)
  have r1: "propagatorRegister_Inject
           \<lparr>propagators = [propagator_Propagator lib a, propagator_Propagator lib b, C]\<rparr>
           ctx h = Some (Some e, hA)"
    by (simp add: propagatorRegister_Inject_def propagator_Propagator_def a1 b1)
  have g: "Header_Get lib hA (headerKey (name a)) = EncodeToString lib dataA"
    by (simp add: hA Header_Get_def Header_Set_def)
  have f: "\<forall>k. CanonicalMIMEHeaderKey lib k \<noteq> CanonicalMIMEHeaderKey lib (headerKey (name a)) \<longrightarrow>
              hA (CanonicalMIMEHeaderKey lib k) = h (CanonicalMIMEHeaderKey lib k)"
    by (simp add: hA Header_Set_def)
  show ?thesis
    using g f by (simp add: r1 r2 Inject_def propagator_go_Inject_def newError_idem error_go_newError_def)
qed

theorem inject_fail_stop_witness:
  "propagatorRegister_Inject
     \<lparr>propagators =
        [ValuePropagator_Propagator std (NewJSONPropagator std ''str'' ''str-key''),
         ValuePropagator_Propagator std (NewValuePropagator ''int'' ''int-key'' failingEncoder rawDecoder),
         panicking]\<rparr>
     (Some (WithValue Background ''str-key'' (Some ''foo''))) no_headers
   = Some (Some (Error ''encode context value'' (Foreign ''boom'')),
           no_headers(''X-Ctxwire-Str'' \<mapsto> [''ImZvbyI=''])) \<and>
   Header_Get std (no_headers(''X-Ctxwire-Str'' \<mapsto> [''ImZvbyI=''])) (headerKey ''str'') = ''ImZvbyI='' \<and>
   Header_Get std (no_headers(''X-Ctxwire-Str'' \<mapsto> [''ImZvbyI=''])) (headerKey ''int'') = []"
proof -
  let ?a = "NewJSONPropagator std ''str'' ''str-key''"
  let ?b = "NewValuePropagator ''int'' ''int-key'' failingEncoder rawDecoder"
  let ?ctx = "Some (WithValue Background ''str-key'' (Some ''foo''))"
  have A: "encoder ?a ?ctx (contextKey ?a) = Some (foo_json, None)"
    by (simp add: example_defs std_examples)
  have B: "encoder ?b ?ctx (contextKey ?b) = Some ([], Some (Foreign ''boom''))"
    by (simp add: example_defs)
  have hA: "no_headers(''X-Ctxwire-Str'' \<mapsto> [''ImZvbyI=''])
            = Header_Set std no_headers (headerKey (name ?a)) (EncodeToString std foo_json)"
    by (simp add: Header_Set_def example_defs std_examples)
  from inject_fail_stop [OF A foo_json_not_empty B hA, of panicking] show ?thesis
    by (simp add: newError_def Header_Get_def std_examples no_headers_def)
qed

subsection \<open>Absence is silent\<close>

text \<open>
  C4. An encoder that finds nothing to carry returns a zero-length payload and no error;
  then \<^verbatim>\<open>Inject\<close> (of either propagator type) returns no error and leaves the carrier as
  it was: no field is written, not even an empty one. The JSON encoders do so for every
  context in which the key is not bound. When the carrier has no entry under the
  propagator's field, or an empty one, \<^verbatim>\<open>Header.Get\<close> returns the empty string, and
  \<^verbatim>\<open>Extract\<close> returns the context it was given, no error, and the carrier as it was.
\<close>

theorem absence_is_silent:
  "(encoder p ctx (contextKey p) = Some ([], None) \<longrightarrow>
      ValuePropagator_Inject lib p ctx h = Some (None, h) \<and>
      propagator_Inject lib p ctx h = Some (None, h)) \<and>
   (\<not> bound c key \<longrightarrow>
      ValuePropagator_Inject lib (NewJSONPropagator lib nm key) (Some c) h = Some (None, h) \<and>
      propagator_Inject lib (json_propagator_go_NewJSONPropagator lib nm key) (Some c) h = Some (None, h)) \<and>
   (Header_Get lib h (headerKey (name p)) = [] \<longrightarrow>
      ValuePropagator_Extract lib p ctx h = Some ((ctx, None), h) \<and>
      propagator_Extract lib p ctx h = Some ((ctx, None), h))"
  by (simp add: ValuePropagator_Inject_def propagator_Inject_def ValuePropagator_Extract_def
      propagator_Extract_def NewJSONPropagator_def json_propagator_go_NewJSONPropagator_def
      NewValuePropagator_def NewPropagator_def encodeJSON_def jsonEncoder_def Value_unbound)

theorem absence_is_silent_witness:
  "ValuePropagator_Inject std (NewJSONPropagator std ''str'' ''str-key'')
      (Some (WithValue Background ''other-key'' (Some ''x''))) (no_headers(''Accept'' \<mapsto> [''text/plain'']))
     = Some (None, no_headers(''Accept'' \<mapsto> [''text/plain''])) \<and>
   propagator_Inject std (json_propagator_go_NewJSONPropagator std ''str'' ''str-key'')
      (Some (WithValue Background ''other-key'' (Some ''x''))) (no_headers(''Accept'' \<mapsto> [''text/plain'']))
     = Some (None, no_headers(''Accept'' \<mapsto> [''text/plain''])) \<and>
   ValuePropagator_Extract std (NewJSONPropagator std ''str'' ''str-key'')
      (Some (WithValue Background ''other-key'' (Some ''x''))) (no_headers(''Accept'' \<mapsto> [''text/plain'']))
     = Some ((Some (WithValue Background ''other-key'' (Some ''x'')), None),
             no_headers(''Accept'' \<mapsto> [''text/plain''])) \<and>
   propagator_Extract std (NewJSONPropagator std ''str'' ''str-key'')
      (Some (WithValue Background ''other-key'' (Some ''x''))) (no_headers(''Accept'' \<mapsto> [''text/plain'']))
     = Some ((Some (WithValue Background ''other-key'' (Some ''x'')), None),
             no_headers(''Accept'' \<mapsto> [''text/plain'']))"
  using absence_is_silent [where p = "NewJSONPropagator std ''str'' ''str-key''"
      and ctx = "Some (WithValue Background ''other-key'' (Some ''x''))" and lib = std
      and h = "no_headers(''Accept'' \<mapsto> [''text/plain''])"
      and c = "WithValue Background ''other-key'' (Some ''x'')" and key = "''str-key''"
      and nm = "''str''"]
  by (simp add: example_defs Header_Get_def std_examples)

subsection \<open>A nil value under the JSON codec\<close>

text \<open>
  C10. For the JSON codec a key bound to nil and a key that is not bound are the same:
  in both cases \<^verbatim>\<open>ctx.Value(key) == nil\<close>, the encoder returns a zero-length payload and
  no error, and \<^verbatim>\<open>Inject\<close> writes nothing. A nil stored on purpose is not propagated.
\<close>

theorem json_nil_not_propagated:
  assumes "ctx = WithValue parent key None \<or> \<not> bound ctx key"
  shows "encodeJSON lib (Some ctx) key = Some ([], None) \<and>
         jsonEncoder lib (Some ctx) key = Some ([], None) \<and>
         ValuePropagator_Inject lib (NewJSONPropagator lib nm key) (Some ctx) h = Some (None, h) \<and>
         propagator_Inject lib (json_propagator_go_NewJSONPropagator lib nm key) (Some ctx) h
           = Some (None, h)"
proof -
  from assms have "Value ctx key = None"
    by (auto simp: Value_unbound)
  then show ?thesis
    by (simp add: ValuePropagator_Inject_def propagator_Inject_def NewJSONPropagator_def
        json_propagator_go_NewJSONPropagator_def NewValuePropagator_def NewPropagator_def
        encodeJSON_def jsonEncoder_def)
qed

theorem json_nil_not_propagated_witness:
  "encodeJSON std (Some (WithValue (WithValue Background ''str-key'' (Some ''foo'')) ''str-key'' None))
      ''str-key'' = Some ([], None) \<and>
   ValuePropagator_Inject std (NewJSONPropagator std ''str'' ''str-key'')
      (Some (WithValue (WithValue Background ''str-key'' (Some ''foo'')) ''str-key'' None)) no_headers
     = Some (None, no_headers) \<and>
   encodeJSON std (Some Background) ''str-key'' = Some ([], None) \<and>
   ValuePropagator_Inject std (NewJSONPropagator std ''str'' ''str-key'') (Some Background) no_headers
     = Some (None, no_headers)"
  using json_nil_not_propagated [where ctx = "WithValue (WithValue Background ''str-key'' (Some ''foo'')) ''str-key'' None"
      and parent = "WithValue Background ''str-key'' (Some ''foo'')" and key = "''str-key''"
      and lib = std and nm = "''str''" and h = no_headers]
    json_nil_not_propagated [where ctx = Background and key = "''str-key''"
      and lib = std and nm = "''str''" and h = no_headers]
  by simp

subsection \<open>Registration order\<close>

text \<open>
  C5. A is registered, then B (two calls of \<^verbatim>\<open>Configure\<close> on the empty register). Both
  fields are present and well-formed base64, and A's decoder succeeds on the caller's
  context and returns \<open>ctxA\<close>. Then the register's \<^verbatim>\<open>Extract\<close> is decided
  by B's decoder applied to \<open>ctxA\<close>, the context A's decoder returned: A's decode runs
  first, and B's decoder sees its effect.
\<close>

theorem extract_threads_context:
  assumes A: "Header_Get lib h (headerKey (name a)) = sA" "sA \<noteq> []"
      "DecodeString lib sA = (dA, None)"
      "decoder a ctx (contextKey a) dA = Some (ctxA, None)"
    and B: "Header_Get lib h (headerKey (name b)) = sB" "sB \<noteq> []"
      "DecodeString lib sB = (dB, None)"
  shows "propagatorRegister_Extract
           (Configure (Configure \<lparr>propagators = []\<rparr> [ValuePropagator_Propagator lib a])
              [ValuePropagator_Propagator lib b]) ctx h
         = (case decoder b ctxA (contextKey b) dB of
              None \<Rightarrow> None
            | Some (newCtx, Some err) \<Rightarrow> Some ((None, Some (newError ''decode context value'' err)), h)
            | Some (newCtx, None) \<Rightarrow> Some ((newCtx, None), h)) \<and>
         propagatorRegister_Extract
           (Configure (Configure \<lparr>propagators = []\<rparr> [propagator_Propagator lib a])
              [propagator_Propagator lib b]) ctx h
         = (case decoder b ctxA (contextKey b) dB of
              None \<Rightarrow> None
            | Some (newCtx, Some err) \<Rightarrow> Some ((None, Some err), h)
            | Some (newCtx, None) \<Rightarrow> Some ((newCtx, None), h))"
proof -
  have a2: "ValuePropagator_Extract lib a ctx h = Some ((ctxA, None), h)"
    and a1: "propagator_Extract lib a ctx h = Some ((ctxA, None), h)"
    using A by (simp_all add: ValuePropagator_Extract_def propagator_Extract_def)
  have b2: "ValuePropagator_Extract lib b ctxA h
         = (case decoder b ctxA (contextKey b) dB of
              None \<Rightarrow> None
            | Some (newCtx, Some err) \<Rightarrow> Some ((None, Some (newError ''decode context value'' err)), h)
            | Some (newCtx, None) \<Rightarrow> Some ((newCtx, None), h))"
    using B by (simp add: ValuePropagator_Extract_def)
  have b1: "propagator_Extract lib b ctxA h
         = (case decoder b ctxA (contextKey b) dB of
              None \<Rightarrow> None
            | Some r \<Rightarrow> Some (r, h))"
    using B by (simp add: propagator_Extract_def)
  show ?thesis
    by (simp add: propagatorRegister_Extract_def Configure_def add_def
        ValuePropagator_Propagator_def propagator_Propagator_def a1 a2 b1 b2
        split: option.splits prod.splits)
qed

theorem extract_threads_context_witness:
  "propagatorRegister_Extract
     \<lparr>propagators =
        [ValuePropagator_Propagator std (NewJSONPropagator std ''str'' ''user''),
         ValuePropagator_Propagator std (NewValuePropagator ''int'' ''greeting'' rawEncoder userDecoder)]\<rparr>
     (Some Background)
     (no_headers(''X-Ctxwire-Str'' \<mapsto> [''ImZvbyI=''], ''X-Ctxwire-Int'' \<mapsto> [''aGk='']))
   = Some ((Some (WithValue (WithValue Background ''user'' (Some ''foo'')) ''greeting'' (Some ''foo:hi'')),
            None),
           no_headers(''X-Ctxwire-Str'' \<mapsto> [''ImZvbyI=''], ''X-Ctxwire-Int'' \<mapsto> [''aGk=''])) \<and>
   propagatorRegister_Extract
     \<lparr>propagators =
        [ValuePropagator_Propagator std (NewValuePropagator ''int'' ''greeting'' rawEncoder userDecoder)]\<rparr>
     (Some Background)
     (no_headers(''X-Ctxwire-Str'' \<mapsto> [''ImZvbyI=''], ''X-Ctxwire-Int'' \<mapsto> [''aGk='']))
   = Some ((None, Some (Error ''decode context value'' (Foreign ''no user''))),
           no_headers(''X-Ctxwire-Str'' \<mapsto> [''ImZvbyI=''], ''X-Ctxwire-Int'' \<mapsto> [''aGk='']))"
proof -
  let ?h = "no_headers(''X-Ctxwire-Str'' \<mapsto> [''ImZvbyI=''], ''X-Ctxwire-Int'' \<mapsto> [''aGk=''])"
  let ?a = "NewJSONPropagator std ''str'' ''user''"
  let ?b = "NewValuePropagator ''int'' ''greeting'' rawEncoder userDecoder"
  have A1: "Header_Get std ?h (headerKey (name ?a)) = ''ImZvbyI=''"
    by (simp add: Header_Get_def example_defs std_examples)
  have A2: "''ImZvbyI='' \<noteq> []"
    by simp
  have A3: "DecodeString std ''ImZvbyI='' = (foo_json, None)"
    by (rule std_Decode_foo)
  have A4: "decoder ?a (Some Background) (contextKey ?a) foo_json
              = Some (Some (WithValue Background ''user'' (Some ''foo'')), None)"
    by (simp add: example_defs std_examples)
  have B1: "Header_Get std ?h (headerKey (name ?b)) = ''aGk=''"
    by (simp add: Header_Get_def example_defs std_examples)
  have B2: "''aGk='' \<noteq> []"
    by simp
  have alone: "propagatorRegister_Extract \<lparr>propagators = [ValuePropagator_Propagator std ?b]\<rparr>
                 (Some Background) ?h
               = Some ((None, Some (Error ''decode context value'' (Foreign ''no user''))), ?h)"
    by (simp add: propagatorRegister_Extract_def ValuePropagator_Propagator_def
        ValuePropagator_Extract_def Header_Get_def example_defs std_examples std_Decode_hi
        newError_def)
  from extract_threads_context [OF A1 A2 A3 A4 B1 B2 std_Decode_hi] alone show ?thesis
    by (simp add: example_defs Configure_def add_def)
qed

subsection \<open>Round trip\<close>

text \<open>
  C3, as stated, fails for a value whose payload is zero-length: the codec that carries a
  Go string as its own bytes encodes the empty string without error and decodes it back,
  but \<^verbatim>\<open>Inject\<close> writes no field for it, and \<^verbatim>\<open>Extract\<close> returns the context it was given,
  in which the key is not bound.
\<close>

theorem round_trip_counterexample:
  "encoder (NewValuePropagator ''raw'' ''raw-key'' rawEncoder rawDecoder)
     (Some (WithValue Background ''raw-key'' (Some []))) ''raw-key'' = Some ([], None) \<and>
   decoder (NewValuePropagator ''raw'' ''raw-key'' rawEncoder rawDecoder)
     (Some Background) ''raw-key'' [] = Some (Some (WithValue Background ''raw-key'' (Some [])), None) \<and>
   ValuePropagator_Inject std (NewValuePropagator ''raw'' ''raw-key'' rawEncoder rawDecoder)
     (Some (WithValue Background ''raw-key'' (Some []))) no_headers = Some (None, no_headers) \<and>
   ValuePropagator_Extract std (NewValuePropagator ''raw'' ''raw-key'' rawEncoder rawDecoder)
     (Some Background) no_headers = Some ((Some Background, None), no_headers) \<and>
   Value Background ''raw-key'' \<noteq> Some []"
  by (simp add: ValuePropagator_Inject_def ValuePropagator_Extract_def Header_Get_def example_defs)

text \<open>
  C3, amended. The payload \<open>data\<close> is not empty, and the base64 functions take it to a
  non-empty text and back. If the encoder yields \<open>data\<close> for the sender's context, and the
  decoder, run on the receiver's context \<open>ctx0\<close> and \<open>data\<close>, yields \<open>c\<close>, then \<^verbatim>\<open>Inject\<close>
  into the empty carrier followed by \<^verbatim>\<open>Extract\<close> from that carrier yields \<open>c\<close>. For the JSON
  codec: if the key holds \<open>v\<close>, \<^verbatim>\<open>json.Marshal\<close> gives \<open>data\<close> and \<^verbatim>\<open>json.Unmarshal\<close> gives
  \<open>v\<close> back, the extracted context is the receiver's context extended with \<open>v\<close> under the
  key.
\<close>

theorem round_trip:
  assumes ne: "data \<noteq> []"
    and b64: "EncodeToString lib data \<noteq> []"
      "DecodeString lib (EncodeToString lib data) = (data, None)"
  shows "(encoder p ctx (contextKey p) = Some (data, None) \<and>
          decoder p ctx0 (contextKey p) data = Some (Some c, None) \<longrightarrow>
            ValuePropagator_Inject lib p ctx no_headers
              = Some (None, Header_Set lib no_headers (headerKey (name p)) (EncodeToString lib data)) \<and>
            ValuePropagator_Extract lib p ctx0
                (Header_Set lib no_headers (headerKey (name p)) (EncodeToString lib data))
              = Some ((Some c, None),
                      Header_Set lib no_headers (headerKey (name p)) (EncodeToString lib data)) \<and>
            propagator_Inject lib p ctx no_headers
              = Some (None, Header_Set lib no_headers (headerKey (name p)) (EncodeToString lib data)) \<and>
            propagator_Extract lib p ctx0
                (Header_Set lib no_headers (headerKey (name p)) (EncodeToString lib data))
              = Some ((Some c, None),
                      Header_Set lib no_headers (headerKey (name p)) (EncodeToString lib data))) \<and>
         (Value cx key = Some v \<and> Marshal lib v = (data, None) \<and>
          Unmarshal lib data = (Some v, None) \<longrightarrow>
            ValuePropagator_Inject lib (NewJSONPropagator lib nm key) (Some cx) no_headers
              = Some (None, Header_Set lib no_headers (headerKey nm) (EncodeToString lib data)) \<and>
            ValuePropagator_Extract lib (NewJSONPropagator lib nm key) (Some cx0)
                (Header_Set lib no_headers (headerKey nm) (EncodeToString lib data))
              = Some ((Some (WithValue cx0 key (Some v)), None),
                      Header_Set lib no_headers (headerKey nm) (EncodeToString lib data)) \<and>
            propagator_Inject lib (json_propagator_go_NewJSONPropagator lib nm key) (Some cx) no_headers
              = Some (None, Header_Set lib no_headers (headerKey nm) (EncodeToString lib data)) \<and>
            propagator_Extract lib (json_propagator_go_NewJSONPropagator lib nm key) (Some cx0)
                (Header_Set lib no_headers (headerKey nm) (EncodeToString lib data))
              = Some ((Some (WithValue cx0 key (Some v)), None),
                      Header_Set lib no_headers (headerKey nm) (EncodeToString lib data)) \<and>
            Value (WithValue cx0 key (Some v)) key = Some v)"
proof -
  have get: "\<And>k. Header_Get lib (Header_Set lib no_headers k (EncodeToString lib data)) k
               = EncodeToString lib data"
    by (simp add: Header_Get_def Header_Set_def)
  show ?thesis
    using ne b64
    by (simp add: ValuePropagator_Inject_def ValuePropagator_Extract_def propagator_Inject_def
        propagator_Extract_def get NewJSONPropagator_def json_propagator_go_NewJSONPropagator_def
        NewValuePropagator_def NewPropagator_def encodeJSON_def decodeJSON_def jsonEncoder_def
        jsonDecoder_def)
qed

theorem round_trip_witness:
  "ValuePropagator_Inject std (NewJSONPropagator std ''str'' ''str-key'')
     (Some (WithValue Background ''str-key'' (Some ''foo''))) no_headers
     = Some (None, no_headers(''X-Ctxwire-Str'' \<mapsto> [''ImZvbyI=''])) \<and>
   ValuePropagator_Extract std (NewJSONPropagator std ''str'' ''str-key'')
     (Some (WithValue Background ''str-key'' (Some ''old''))) (no_headers(''X-Ctxwire-Str'' \<mapsto> [''ImZvbyI='']))
     = Some ((Some (WithValue (WithValue Background ''str-key'' (Some ''old'')) ''str-key'' (Some ''foo'')),
              None),
             no_headers(''X-Ctxwire-Str'' \<mapsto> [''ImZvbyI=''])) \<and>
   Value (WithValue (WithValue Background ''str-key'' (Some ''old'')) ''str-key'' (Some ''foo''))
     ''str-key'' = Some ''foo''"
proof -
  have ne: "foo_json \<noteq> []"
    by (rule foo_json_not_empty)
  have b1: "EncodeToString std foo_json \<noteq> []"
    by (simp add: std_examples)
  have b2: "DecodeString std (EncodeToString std foo_json) = (foo_json, None)"
    by (simp add: std_examples)
  have v: "Value (WithValue Background ''str-key'' (Some ''foo'')) ''str-key'' = Some ''foo''"
    by simp
  from round_trip [OF ne b1 b2, where cx = "WithValue Background ''str-key'' (Some ''foo'')"
      and key = "''str-key''" and v = "''foo''" and nm = "''str''"
      and ?cx0.0 = "WithValue Background ''str-key'' (Some ''old'')"
      and p = "NewJSONPropagator std ''str'' ''str-key''"
      and ctx = "Some (WithValue Background ''str-key'' (Some ''foo''))"
      and ?ctx0.0 = "Some (WithValue Background ''str-key'' (Some ''old''))"
      and c = "WithValue (WithValue Background ''str-key'' (Some ''old'')) ''str-key'' (Some ''foo'')"]
  show ?thesis
    by (simp add: std_examples Header_Set_def no_headers_def)
qed

subsection \<open>Labels of the package functions\<close>

lemma Inject_range_append:
  "Inject_range pre ctx h = Some (None, h1) \<Longrightarrow>
   Inject_range (pre @ ps) ctx h = Inject_range ps ctx h1"
  by (induction pre arbitrary: h) (auto split: option.splits prod.splits)

lemma Extract_range_append:
  "Extract_range pre ctx h = Some ((ctx1, None), h1) \<Longrightarrow>
   Extract_range (pre @ ps) ctx h = Extract_range ps ctx1 h1"
  by (induction pre arbitrary: ctx h) (auto split: option.splits prod.splits)

text \<open>
  C6, as stated, fails: the error of a \<^verbatim>\<open>ValuePropagator\<close> is already a \<^verbatim>\<open>*Error\<close>, so
  \<^verbatim>\<open>newError\<close> returns it as it is, and the error of the package function carries the
  propagator's label only.
\<close>

theorem aggregate_label_counterexample:
  "Inject
     \<lparr>propagators =
        [ValuePropagator_Propagator std (NewValuePropagator ''int'' ''int-key'' failingEncoder rawDecoder)]\<rparr>
     (Some Background) no_headers
     = Some (Some (Error ''encode context value'' (Foreign ''boom'')), no_headers) \<and>
   ''inject context values'' \<notin> set (labels (Error ''encode context value'' (Foreign ''boom''))) \<and>
   error_Error (Error ''encode context value'' (Foreign ''boom'')) = ''encode context value: boom'' \<and>
   Extract
     \<lparr>propagators =
        [ValuePropagator_Propagator std (NewValuePropagator ''int'' ''int-key'' rawEncoder failingDecoder)]\<rparr>
     (Some Background) (no_headers(''X-Ctxwire-Int'' \<mapsto> [''Zm9v'']))
     = Some ((None, Some (Error ''decode context value'' (Foreign ''bad payload''))),
             no_headers(''X-Ctxwire-Int'' \<mapsto> [''Zm9v''])) \<and>
   ''extract context values'' \<notin> set (labels (Error ''decode context value'' (Foreign ''bad payload''))) \<and>
   error_Error (Error ''decode context value'' (Foreign ''bad payload''))
     = ''decode context value: bad payload''"
  by (simp add: Inject_def Extract_def propagatorRegister_Inject_def propagatorRegister_Extract_def
      ValuePropagator_Propagator_def ValuePropagator_Inject_def ValuePropagator_Extract_def
      Header_Get_def newError_def example_defs std_examples)

text \<open>
  C6, amended. The propagators before \<open>p\<close> succeed and \<open>p\<close> returns the error \<open>e\<close>. The
  package functions of the single-file package return \<open>newError label e\<close> with the label
  \<^verbatim>\<open>inject context values\<close> (\<^verbatim>\<open>extract context values\<close>): that is \<open>e\<close> itself when the chain
  of \<open>e\<close> holds a \<^verbatim>\<open>*Error\<close>, and \<^verbatim>\<open>&Error{label, e}\<close> otherwise. The package functions of
  propagator.go always return \<^verbatim>\<open>&Error{label, e}\<close>, with the labels
  \<^verbatim>\<open>inject context into header\<close> and \<^verbatim>\<open>extract context from header\<close>. In every case \<open>e\<close>
  is in the chain of the error returned.
\<close>

theorem aggregate_errors:
  "(Inject_range pre ctx h = Some (None, h1) \<and> method_Inject p ctx h1 = Some (Some e, h2) \<longrightarrow>
      Inject \<lparr>propagators = pre @ p # post\<rparr> ctx h
        = Some (Some (newError ''inject context values'' e), h2) \<and>
      propagator_go_Inject \<lparr>propagators = pre @ p # post\<rparr> ctx h
        = Some (Some (Error ''inject context into header'' e), h2)) \<and>
   (Extract_range pre ctx h = Some ((ctx1, None), h1) \<and>
    method_Extract p ctx1 h1 = Some ((c, Some e), h2) \<longrightarrow>
      Extract \<lparr>propagators = pre @ p # post\<rparr> ctx h
        = Some ((None, Some (newError ''extract context values'' e)), h2) \<and>
      propagator_go_Extract \<lparr>propagators = pre @ p # post\<rparr> ctx h
        = Some ((None, Some (Error ''extract context from header'' e)), h2)) \<and>
   errors_Is (newError label e) e \<and>
   errors_Is (Error label e) e \<and>
   (errors_As e \<longrightarrow> newError label e = e) \<and>
   (\<not> errors_As e \<longrightarrow> newError label e = Error label e \<and> label \<in> set (labels (newError label e)))"
proof -
  have i: "Inject_range pre ctx h = Some (None, h1) \<and> method_Inject p ctx h1 = Some (Some e, h2) \<longrightarrow>
      Inject_range (pre @ p # post) ctx h = Some (Some e, h2)"
    by (auto simp: Inject_range_append)
  have x: "Extract_range pre ctx h = Some ((ctx1, None), h1) \<and>
    method_Extract p ctx1 h1 = Some ((c, Some e), h2) \<longrightarrow>
      Extract_range (pre @ p # post) ctx h = Some ((None, Some e), h2)"
    by (auto simp: Extract_range_append)
  have n: "errors_Is (Error label e) e"
    by (simp add: errors_Is_def chain_self)
  show ?thesis
    using i x n
    by (auto simp: Inject_def Extract_def propagator_go_Inject_def propagator_go_Extract_def
        propagatorRegister_Inject_def propagatorRegister_Extract_def error_go_newError_def
        errors_Is_def chain_self newError_def)
qed

theorem aggregate_errors_witness:
  "Inject
     \<lparr>propagators =
        [ValuePropagator_Propagator std (NewJSONPropagator std ''str'' ''str-key''), refusing, panicking]\<rparr>
     (Some (WithValue Background ''str-key'' (Some ''foo''))) no_headers
     = Some (Some (Error ''inject context values'' (Foreign ''refused'')),
             no_headers(''X-Ctxwire-Str'' \<mapsto> [''ImZvbyI=''])) \<and>
   Extract
     \<lparr>propagators =
        [ValuePropagator_Propagator std (NewJSONPropagator std ''str'' ''str-key''), refusing, panicking]\<rparr>
     (Some Background) (no_headers(''X-Ctxwire-Str'' \<mapsto> [''ImZvbyI='']))
     = Some ((None, Some (Error ''extract context values'' (Foreign ''refused''))),
             no_headers(''X-Ctxwire-Str'' \<mapsto> [''ImZvbyI=''])) \<and>
   errors_Is (Error ''inject context values'' (Foreign ''refused'')) (Foreign ''refused'')"
proof -
  let ?a = "ValuePropagator_Propagator std (NewJSONPropagator std ''str'' ''str-key'')"
  let ?h = "no_headers(''X-Ctxwire-Str'' \<mapsto> [''ImZvbyI=''])"
  have i1: "Inject_range [?a] (Some (WithValue Background ''str-key'' (Some ''foo''))) no_headers
              = Some (None, ?h)"
    by (simp add: ValuePropagator_Propagator_def ValuePropagator_Inject_def Header_Set_def
        example_defs std_examples foo_json_not_empty)
  have i2: "method_Inject refusing (Some (WithValue Background ''str-key'' (Some ''foo''))) ?h
              = Some (Some (Foreign ''refused''), ?h)"
    by (simp add: refusing_def)
  have x1: "Extract_range [?a] (Some Background) ?h
              = Some ((Some (WithValue Background ''str-key'' (Some ''foo'')), None), ?h)"
    by (simp add: ValuePropagator_Propagator_def ValuePropagator_Extract_def Header_Get_def
        example_defs std_examples)
  have x2: "method_Extract refusing (Some (WithValue Background ''str-key'' (Some ''foo''))) ?h
              = Some ((None, Some (Foreign ''refused'')), ?h)"
    by (simp add: refusing_def)
  have f: "\<not> errors_As (Foreign ''refused'')"
    by simp
  from aggregate_errors [where pre = "[?a]" and p = refusing and post = "[panicking]"
      and ctx = "Some (WithValue Background ''str-key'' (Some ''foo''))" and h = no_headers
      and ?h1.0 = ?h and ?h2.0 = ?h and e = "Foreign ''refused''" and label = "''inject context values''"]
    aggregate_errors [where pre = "[?a]" and p = refusing and post = "[panicking]"
      and ctx = "Some Background" and h = ?h
      and ?ctx1.0 = "Some (WithValue Background ''str-key'' (Some ''foo''))"
      and ?h1.0 = ?h and ?h2.0 = ?h and e = "Foreign ''refused''" and c = None]
    i1 i2 x1 x2 f
  show ?thesis
    by (simp add: newError_def)
qed

subsection \<open>Wire-format failure\<close>

text \<open>
  C7. The field of \<open>p\<close> is present. On the carrier \<open>h1\<close> its value is not valid base64:
  the library fails with \<open>e1\<close> (an error of the library, so no \<^verbatim>\<open>*Error\<close>). On the
  carrier \<open>h2\<close> the value decodes, and the decoder of \<open>p\<close> fails with \<open>e2\<close>. In both cases
  \<^verbatim>\<open>(*ValuePropagator).Extract\<close> returns a nil context and an error. The two errors
  differ: the first is \<^verbatim>\<open>&Error{"base64 decode context value", e1}\<close>, the second is
  \<open>newError ''decode context value'' e2\<close>, which does not carry the base64 label (as long
  as \<open>e2\<close> itself does not); each has its cause in its chain. \<^verbatim>\<open>(*propagator).Extract\<close> of
  propagator.go returns a nil context and \<open>e1\<close> itself in the first case, and what the
  decoder returned in the second.
\<close>

theorem wire_format_failure:
  assumes bad: "Header_Get lib h1 (headerKey (name p)) = s1" "s1 \<noteq> []"
      "DecodeString lib s1 = (v1, Some e1)" "\<not> errors_As e1"
    and dec: "Header_Get lib h2 (headerKey (name p)) = s2" "s2 \<noteq> []"
      "DecodeString lib s2 = (d, None)"
      "decoder p ctx (contextKey p) d = Some (c, Some e2)"
      "''base64 decode context value'' \<notin> set (labels e2)"
  shows "ValuePropagator_Extract lib p ctx h1
           = Some ((None, Some (Error ''base64 decode context value'' e1)), h1) \<and>
         ValuePropagator_Extract lib p ctx h2
           = Some ((None, Some (newError ''decode context value'' e2)), h2) \<and>
         labels (Error ''base64 decode context value'' e1) = [''base64 decode context value''] \<and>
         ''base64 decode context value'' \<notin> set (labels (newError ''decode context value'' e2)) \<and>
         Error ''base64 decode context value'' e1 \<noteq> newError ''decode context value'' e2 \<and>
         Unwrap (Error ''base64 decode context value'' e1) = Some e1 \<and>
         errors_Is (newError ''decode context value'' e2) e2 \<and>
         propagator_Extract lib p ctx h1 = Some ((None, Some e1), h1) \<and>
         propagator_Extract lib p ctx h2 = Some ((c, Some e2), h2)"
proof -
  have l1: "labels e1 = []"
    using bad(4) by (induction e1) simp_all
  have l2: "''base64 decode context value'' \<notin> set (labels (newError ''decode context value'' e2))"
    using dec(5) by (simp add: newError_def)
  have ne: "Error ''base64 decode context value'' e1 \<noteq> newError ''decode context value'' e2"
  proof
    assume "Error ''base64 decode context value'' e1 = newError ''decode context value'' e2"
    then have "''base64 decode context value'' \<in> set (labels (newError ''decode context value'' e2))"
      by (metis labels.simps(1) list.set_intros(1))
    with l2 show False
      by simp
  qed
  show ?thesis
    using bad dec l1 l2 ne
    by (simp add: ValuePropagator_Extract_def propagator_Extract_def newError_def errors_Is_def
        chain_self)
qed

theorem wire_format_failure_witness:
  "ValuePropagator_Extract std (NewJSONPropagator std ''str'' ''str-key'') (Some Background)
     (no_headers(''X-Ctxwire-Str'' \<mapsto> [''Zm9'']))
     = Some ((None, Some (Error ''base64 decode context value'' (Foreign ''illegal base64 data''))),
             no_headers(''X-Ctxwire-Str'' \<mapsto> [''Zm9''])) \<and>
   ValuePropagator_Extract std (NewJSONPropagator std ''str'' ''str-key'') (Some Background)
     (no_headers(''X-Ctxwire-Str'' \<mapsto> [''Zm9v'']))
     = Some ((None, Some (Error ''decode context value''
                (Foreign ''invalid character looking for beginning of value''))),
             no_headers(''X-Ctxwire-Str'' \<mapsto> [''Zm9v''])) \<and>
   propagator_Extract std (NewPropagator ''str'' ''str-key'' (encodeJSON std) (decodeJSON std))
     (Some Background) (no_headers(''X-Ctxwire-Str'' \<mapsto> [''Zm9'']))
     = Some ((None, Some (Foreign ''illegal base64 data'')), no_headers(''X-Ctxwire-Str'' \<mapsto> [''Zm9''])) \<and>
   propagator_Extract std (NewPropagator ''str'' ''str-key'' (encodeJSON std) (decodeJSON std))
     (Some Background) (no_headers(''X-Ctxwire-Str'' \<mapsto> [''Zm9v'']))
     = Some ((None, Some (Foreign ''invalid character looking for beginning of value'')),
             no_headers(''X-Ctxwire-Str'' \<mapsto> [''Zm9v'']))"
proof -
  let ?p = "NewJSONPropagator std ''str'' ''str-key''"
  let ?h1 = "no_headers(''X-Ctxwire-Str'' \<mapsto> [''Zm9''])"
  let ?h2 = "no_headers(''X-Ctxwire-Str'' \<mapsto> [''Zm9v''])"
  have b1: "Header_Get std ?h1 (headerKey (name ?p)) = ''Zm9''"
    by (simp add: Header_Get_def example_defs std_examples)
  have b2: "''Zm9'' \<noteq> []"
    by simp
  have b4: "\<not> errors_As (Foreign ''illegal base64 data'')"
    by simp
  have d1: "Header_Get std ?h2 (headerKey (name ?p)) = ''Zm9v''"
    by (simp add: Header_Get_def example_defs std_examples)
  have d2: "''Zm9v'' \<noteq> []"
    by simp
  have d4: "decoder ?p (Some Background) (contextKey ?p) ''foo''
              = Some (None, Some (Foreign ''invalid character looking for beginning of value''))"
    by (simp add: example_defs std_def std_Unmarshal_def quote_def)
  have d5: "''base64 decode context value''
              \<notin> set (labels (Foreign ''invalid character looking for beginning of value''))"
    by simp
  from wire_format_failure [OF b1 b2 std_Decode_bad b4 d1 d2 std_Decode_raw d4 d5] show ?thesis
    by (simp add: newError_def example_defs)
qed

subsection \<open>The extracting transport\<close>

text \<open>
  C8. \<^verbatim>\<open>(*extractTransport).RoundTrip\<close>. When the wrapped round tripper returns a response
  and no error, and \<^verbatim>\<open>Extract\<close> on the response header returns an error, the call returns
  that response together with that error. When the wrapped round tripper returns an
  error, the call returns a nil response and that very error, whatever the register
  holds: \<^verbatim>\<open>Extract\<close> is not called.
\<close>

theorem extract_transport_errors:
  "(inner req = Some ((Some resp, None), req') \<and>
    Extract register (Some (Request_Context req')) (resp_Header resp) = Some ((c, Some err), h') \<longrightarrow>
      extractTransport_RoundTrip register inner req
        = Some ((Some (resp\<lparr>resp_Header := h'\<rparr>), Some err), req')) \<and>
   (inner req = Some ((r, Some err), req') \<longrightarrow>
      extractTransport_RoundTrip register inner req = Some ((None, Some err), req'))"
  by (auto simp: extractTransport_RoundTrip_def split: option.splits)

theorem extract_transport_errors_witness:
  "extractTransport_RoundTrip
     \<lparr>propagators =
        [ValuePropagator_Propagator std (NewValuePropagator ''int'' ''int-key'' rawEncoder failingDecoder)]\<rparr>
     (\<lambda>req. Some ((Some \<lparr>resp_Header = no_headers(''X-Ctxwire-Int'' \<mapsto> [''Zm9v''])\<rparr>, None), req))
     \<lparr>req_ctx = Some Background, req_Header = no_headers\<rparr>
     = Some ((Some \<lparr>resp_Header = no_headers(''X-Ctxwire-Int'' \<mapsto> [''Zm9v''])\<rparr>,
              Some (Error ''decode context value'' (Foreign ''bad payload''))),
             \<lparr>req_ctx = Some Background, req_Header = no_headers\<rparr>) \<and>
   extractTransport_RoundTrip \<lparr>propagators = [panicking]\<rparr>
     (\<lambda>req. Some ((None, Some (Foreign ''connection refused'')), req))
     \<lparr>req_ctx = Some Background, req_Header = no_headers\<rparr>
     = Some ((None, Some (Foreign ''connection refused'')),
             \<lparr>req_ctx = Some Background, req_Header = no_headers\<rparr>)"
proof -
  let ?reg = "\<lparr>propagators =
        [ValuePropagator_Propagator std (NewValuePropagator ''int'' ''int-key'' rawEncoder failingDecoder)]\<rparr>"
  let ?h = "no_headers(''X-Ctxwire-Int'' \<mapsto> [''Zm9v''])"
  let ?req = "\<lparr>req_ctx = Some (Background :: (string, string) Context), req_Header = no_headers\<rparr>"
  have x: "Extract ?reg (Some (Request_Context ?req)) (resp_Header \<lparr>resp_Header = ?h\<rparr>)
             = Some ((None, Some (Error ''decode context value'' (Foreign ''bad payload''))), ?h)"
    by (simp add: Extract_def propagatorRegister_Extract_def ValuePropagator_Propagator_def
        ValuePropagator_Extract_def Header_Get_def Request_Context_def newError_def
        example_defs std_examples)
  from extract_transport_errors [where inner = "\<lambda>req. Some ((Some \<lparr>resp_Header = ?h\<rparr>, None), req)"
      and req = ?req and req' = ?req and resp = "\<lparr>resp_Header = ?h\<rparr>" and register = ?reg
      and c = None and err = "Error ''decode context value'' (Foreign ''bad payload'')" and h' = ?h]
    extract_transport_errors [where inner = "\<lambda>req. Some ((None, Some (Foreign ''connection refused'')), req)"
      and req = ?req and req' = ?req and r = None and err = "Foreign ''connection refused''"
      and register = "\<lparr>propagators = [panicking]\<rparr>"]
    x
  show ?thesis
    by simp
qed

subsection \<open>Frame\<close>

lemma methods_ValuePropagator:
  "method_Inject (ValuePropagator_Propagator lib p) = ValuePropagator_Inject lib p"
  "method_Extract (ValuePropagator_Propagator lib p) = ValuePropagator_Extract lib p"
  by (simp_all add: ValuePropagator_Propagator_def)

lemma methods_propagator:
  "method_Inject (propagator_Propagator lib p) = propagator_Inject lib p"
  "method_Extract (propagator_Propagator lib p) = propagator_Extract lib p"
  by (simp_all add: propagator_Propagator_def)

lemma ValuePropagator_Inject_frame:
  "ValuePropagator_Inject lib p ctx h = Some (r, h') \<Longrightarrow>
   k \<noteq> CanonicalMIMEHeaderKey lib (headerKey (name p)) \<Longrightarrow> h' k = h k"
  by (auto simp: ValuePropagator_Inject_def Header_Set_def
      split: option.splits prod.splits if_splits)

lemma propagator_Inject_frame:
  "propagator_Inject lib p ctx h = Some (r, h') \<Longrightarrow>
   k \<noteq> CanonicalMIMEHeaderKey lib (headerKey (name p)) \<Longrightarrow> h' k = h k"
  by (auto simp: propagator_Inject_def Header_Set_def
      split: option.splits prod.splits if_splits)

lemma Inject_range_ValuePropagator_frame:
  "Inject_range (map (ValuePropagator_Propagator lib) ps) ctx h = Some (r, h') \<Longrightarrow>
   k \<notin> (\<lambda>p. CanonicalMIMEHeaderKey lib (headerKey (name p))) ` set ps \<Longrightarrow> h' k = h k"
proof (induction ps arbitrary: h)
  case Nil
  then show ?case by simp
next
  case (Cons p ps)
  from Cons.prems(1) obtain h1 e where
    step: "ValuePropagator_Inject lib p ctx h = Some (e, h1)"
    by (auto simp: methods_ValuePropagator split: option.splits)
  from Cons.prems(2) have k: "k \<noteq> CanonicalMIMEHeaderKey lib (headerKey (name p))"
    by simp
  have h1: "h1 k = h k"
    using step k by (rule ValuePropagator_Inject_frame)
  show ?case
  proof (cases e)
    case None
    with Cons.prems(1) step have "Inject_range (map (ValuePropagator_Propagator lib) ps) ctx h1 = Some (r, h')"
      by (simp add: methods_ValuePropagator)
    with Cons.IH Cons.prems(2) have "h' k = h1 k"
      by simp
    with h1 show ?thesis by simp
  next
    case (Some err)
    with Cons.prems(1) step have "h' = h1"
      by (simp add: methods_ValuePropagator)
    with h1 show ?thesis by simp
  qed
qed

lemma Inject_range_propagator_frame:
  "Inject_range (map (propagator_Propagator lib) ps) ctx h = Some (r, h') \<Longrightarrow>
   k \<notin> (\<lambda>p. CanonicalMIMEHeaderKey lib (headerKey (name p))) ` set ps \<Longrightarrow> h' k = h k"
proof (induction ps arbitrary: h)
  case Nil
  then show ?case by simp
next
  case (Cons p ps)
  from Cons.prems(1) obtain h1 e where
    step: "propagator_Inject lib p ctx h = Some (e, h1)"
    by (auto simp: methods_propagator split: option.splits)
  from Cons.prems(2) have k: "k \<noteq> CanonicalMIMEHeaderKey lib (headerKey (name p))"
    by simp
  have h1: "h1 k = h k"
    using step k by (rule propagator_Inject_frame)
  show ?case
  proof (cases e)
    case None
    with Cons.prems(1) step have "Inject_range (map (propagator_Propagator lib) ps) ctx h1 = Some (r, h')"
      by (simp add: methods_propagator)
    with Cons.IH Cons.prems(2) have "h' k = h1 k"
      by simp
    with h1 show ?thesis by simp
  next
    case (Some err)
    with Cons.prems(1) step have "h' = h1"
      by (simp add: methods_propagator)
    with h1 show ?thesis by simp
  qed
qed

lemma ValuePropagator_Extract_carrier:
  "ValuePropagator_Extract lib p ctx h = Some (r, h') \<Longrightarrow> h' = h"
  by (auto simp: ValuePropagator_Extract_def Let_def split: option.splits prod.splits if_splits)

lemma propagator_Extract_carrier:
  "propagator_Extract lib p ctx h = Some (r, h') \<Longrightarrow> h' = h"
  by (auto simp: propagator_Extract_def Let_def split: option.splits prod.splits if_splits)

lemma Extract_range_ValuePropagator_carrier:
  "Extract_range (map (ValuePropagator_Propagator lib) ps) ctx h = Some (r, h') \<Longrightarrow> h' = h"
proof (induction ps arbitrary: ctx)
  case Nil
  then show ?case by simp
next
  case (Cons p ps)
  then show ?case
    by (auto simp: methods_ValuePropagator split: option.splits prod.splits
        dest!: ValuePropagator_Extract_carrier)
qed

lemma Extract_range_propagator_carrier:
  "Extract_range (map (propagator_Propagator lib) ps) ctx h = Some (r, h') \<Longrightarrow> h' = h"
proof (induction ps arbitrary: ctx)
  case Nil
  then show ?case by simp
next
  case (Cons p ps)
  then show ?case
    by (auto simp: methods_propagator split: option.splits prod.splits
        dest!: propagator_Extract_carrier)
qed

text \<open>
  C9. The register holds propagators built from \<open>ps\<close> (of either propagator type). After
  the register's \<^verbatim>\<open>Inject\<close>, every entry of the carrier is as before, except under the
  canonical form of \<open>headerKey (name p)\<close>, that is of \<^verbatim>\<open>"x-ctxwire-" + name\<close>, for a
  propagator \<open>p\<close> of \<open>ps\<close>. The register's \<^verbatim>\<open>Extract\<close> leaves the carrier as it was.
\<close>

theorem register_frame:
  "(propagatorRegister_Inject \<lparr>propagators = map (ValuePropagator_Propagator lib) ps\<rparr> ctx h
      = Some (r, h') \<and>
    k \<notin> (\<lambda>p. CanonicalMIMEHeaderKey lib (headerKey (name p))) ` set ps \<longrightarrow> h' k = h k) \<and>
   (propagatorRegister_Inject \<lparr>propagators = map (propagator_Propagator lib) ps\<rparr> ctx h
      = Some (r, h') \<and>
    k \<notin> (\<lambda>p. CanonicalMIMEHeaderKey lib (headerKey (name p))) ` set ps \<longrightarrow> h' k = h k) \<and>
   (propagatorRegister_Extract \<lparr>propagators = map (ValuePropagator_Propagator lib) ps\<rparr> ctx h
      = Some (x, h') \<longrightarrow> h' = h) \<and>
   (propagatorRegister_Extract \<lparr>propagators = map (propagator_Propagator lib) ps\<rparr> ctx h
      = Some (x, h') \<longrightarrow> h' = h) \<and>
   headerKey nm = ''x-ctxwire-'' @ nm"
  using Inject_range_ValuePropagator_frame [of lib ps ctx h r h' k]
    Inject_range_propagator_frame [of lib ps ctx h r h' k]
    Extract_range_ValuePropagator_carrier [of lib ps ctx h x h']
    Extract_range_propagator_carrier [of lib ps ctx h x h']
  by (simp add: propagatorRegister_Inject_def propagatorRegister_Extract_def headerKey_def)


theorem register_frame_witness:
  "propagatorRegister_Inject
     \<lparr>propagators = map (ValuePropagator_Propagator std)
        [NewJSONPropagator std ''str'' ''str-key'', NewJSONPropagator std ''int'' ''int-key'']\<rparr>
     (Some (WithValue Background ''str-key'' (Some ''foo''))) (no_headers(''Accept'' \<mapsto> [''text/plain'']))
     = Some (None, no_headers(''Accept'' \<mapsto> [''text/plain''], ''X-Ctxwire-Str'' \<mapsto> [''ImZvbyI=''])) \<and>
   (no_headers(''Accept'' \<mapsto> [''text/plain''], ''X-Ctxwire-Str'' \<mapsto> [''ImZvbyI=''])) ''Accept''
     = (no_headers(''Accept'' \<mapsto> [''text/plain''])) ''Accept'' \<and>
   propagatorRegister_Extract
     \<lparr>propagators = map (ValuePropagator_Propagator std)
        [NewJSONPropagator std ''str'' ''str-key'', NewJSONPropagator std ''int'' ''int-key'']\<rparr>
     (Some Background) (no_headers(''Accept'' \<mapsto> [''text/plain''], ''X-Ctxwire-Str'' \<mapsto> [''ImZvbyI='']))
     = Some ((Some (WithValue Background ''str-key'' (Some ''foo'')), None),
             no_headers(''Accept'' \<mapsto> [''text/plain''], ''X-Ctxwire-Str'' \<mapsto> [''ImZvbyI='']))"
proof -
  let ?ps = "[NewJSONPropagator std ''str'' ''str-key'', NewJSONPropagator std ''int'' ''int-key'']"
  let ?ctx = "Some (WithValue Background ''str-key'' (Some ''foo''))"
  let ?h = "no_headers(''Accept'' \<mapsto> [''text/plain''])"
  let ?h' = "no_headers(''Accept'' \<mapsto> [''text/plain''], ''X-Ctxwire-Str'' \<mapsto> [''ImZvbyI=''])"
  have i: "propagatorRegister_Inject \<lparr>propagators = map (ValuePropagator_Propagator std) ?ps\<rparr> ?ctx ?h
             = Some (None, ?h')"
    by (simp add: propagatorRegister_Inject_def methods_ValuePropagator ValuePropagator_Inject_def
        Header_Set_def example_defs std_examples foo_json_not_empty)
  have k: "''Accept'' \<notin> (\<lambda>p. CanonicalMIMEHeaderKey std (headerKey (name p))) ` set ?ps"
    by (simp add: example_defs std_examples)
  have x: "propagatorRegister_Extract \<lparr>propagators = map (ValuePropagator_Propagator std) ?ps\<rparr>
             (Some Background) ?h'
             = Some ((Some (WithValue Background ''str-key'' (Some ''foo'')), None), ?h')"
    by (simp add: propagatorRegister_Extract_def methods_ValuePropagator ValuePropagator_Extract_def
        Header_Get_def example_defs std_examples)
  from register_frame [where lib = std and ps = ?ps and ctx = ?ctx and h = ?h and r = None
      and h' = ?h' and k = "''Accept''"] i k
  have "?h' ''Accept'' = ?h ''Accept''"
    by blast
  with i x show ?thesis
    by simp
qed

end
